theory Spec2Isabelle
  imports Main "HOL-Library.AList" "HOL-Library.Char_ord" "HOL-Library.List_Lexorder"
begin

section \<open>The skill repository of \<open>skills/repo.go\<close>\<close>

subsection \<open>Errors\<close>

text \<open>
  Every \<open>fmt.Errorf\<close> site of \<open>repo.go\<close> is one constructor, carrying the values that are
  formatted into the message. An error made outside the file (by \<open>ValidateName\<close>,
  \<open>snap.ValidateName\<close> or a type's \<open>Sanitize\<close>) is returned by the repository as it is.
\<close>

datatype error =
    ExternalError string
  | AddType_NameInUse string
  | AddSkill_TypeNotKnown string
  | AddSkill_NameInUse string
  | RemoveSkill_NotExist string string
  | RemoveSkill_Used string string
  | AddSlot_TypeNotKnown string
  | AddSlot_NameInUse string
  | RemoveSlot_NotExist string string
  | RemoveSlot_Uses string string
  | Grant_NoSuchSkill string string
  | Grant_NoSuchSlot string string
  | Grant_TypeMismatch string string
  | Grant_AlreadyUsed string string string string
  | Revoke_NoSuchSkill string string
  | Revoke_NoSuchSlot string string
  | Revoke_NotUsed string string string string

subsection \<open>Data\<close>

text \<open>
  The repository stores and compares \<open>*Skill\<close> and \<open>*Slot\<close>: two pointers are the same map
  key when they are the same address. A pointer is modelled as the address together with
  the object it points to; the repository never writes through these pointers. A \<open>nil\<close>
  result of a map read is \<open>None\<close>; the pointers handed to \<open>AddSkill\<close> and \<open>AddSlot\<close> are
  taken to be non-nil.
\<close>

datatype 'a ptr = Ptr (addr: nat) (deref: 'a)

record Skill =
  Snap :: string
  Name :: string
  Type :: string

record Slot =
  Snap :: string
  Name :: string
  Type :: string

text \<open>The interface \<open>Type\<close>, as far as \<open>repo.go\<close> calls it: \<open>Name()\<close> and \<open>Sanitize(skill)\<close>.\<close>

record Type =
  Name :: string
  Sanitize :: "Skill ptr \<Rightarrow> error option"

text \<open>
  The two name validators are defined outside \<open>repo.go\<close>; the operations take them as a
  parameter. \<open>None\<close> is the \<open>nil\<close> error.
\<close>

record Externals =
  snap_ValidateName :: "string \<Rightarrow> error option"
  ValidateName :: "string \<Rightarrow> error option"

text \<open>
  A Go map is an association list read with \<open>map_of\<close>, written with \<open>AList.update\<close> and
  \<open>AList.delete\<close>; the order of the list stands for the order in which \<open>range\<close> visits the
  map. The mutex \<open>m\<close> is not part of the model.
\<close>

record Repository =
  types :: "(string \<times> Type) list"
  skills :: "(string \<times> (string \<times> Skill ptr) list) list"
  slots :: "(string \<times> (string \<times> Slot ptr) list) list"
  skillUsedBySlot :: "(Slot ptr \<times> (Skill ptr \<times> bool) list) list"
  slotsUsingSkill :: "(Skill ptr \<times> (Slot ptr \<times> bool) list) list"

definition NewRepository :: Repository where
  "NewRepository = \<lparr>types = [], skills = [], slots = [], skillUsedBySlot = [], slotsUsingSkill = []\<rparr>"

subsection \<open>Nested map access\<close>

text \<open>\<open>m[a]\<close> where the value is a map or a slice: a missing key reads as \<open>nil\<close>, which is empty.\<close>

definition inner :: "('a \<times> 'b list) list \<Rightarrow> 'a \<Rightarrow> 'b list" where
  "inner m a = (case map_of m a of None \<Rightarrow> [] | Some i \<Rightarrow> i)"

text \<open>\<open>m[a][b]\<close> with the comma-ok result: \<open>None\<close> when either key is missing.\<close>

definition lookup2 :: "('a \<times> ('b \<times> 'c) list) list \<Rightarrow> 'a \<Rightarrow> 'b \<Rightarrow> 'c option" where
  "lookup2 m a b = map_of (inner m a) b"

text \<open>\<open>m[a][b]\<close> read as a \<open>bool\<close>: a missing key reads as \<open>false\<close>.\<close>

definition holds2 :: "('a \<times> ('b \<times> bool) list) list \<Rightarrow> 'a \<Rightarrow> 'b \<Rightarrow> bool" where
  "holds2 m a b = (lookup2 m a b = Some True)"

text \<open>\<open>if m[a] == nil { m[a] = make(...) }\<close>\<close>

definition make_if_nil :: "('a \<times> 'b list) list \<Rightarrow> 'a \<Rightarrow> ('a \<times> 'b list) list" where
  "make_if_nil m a = (if map_of m a = None then AList.update a [] m else m)"

text \<open>\<open>m[a][b] = v\<close>; every use in \<open>repo.go\<close> comes after \<open>make_if_nil m a\<close>.\<close>

definition assign2 :: "('a \<times> ('b \<times> 'c) list) list \<Rightarrow> 'a \<Rightarrow> 'b \<Rightarrow> 'c \<Rightarrow> ('a \<times> ('b \<times> 'c) list) list" where
  "assign2 m a b v = AList.update a (AList.update b v (inner m a)) m"

text \<open>\<open>delete(m[a], b)\<close>; deleting from a \<open>nil\<close> map does nothing.\<close>

definition delete2 :: "('a \<times> ('b \<times> 'c) list) list \<Rightarrow> 'a \<Rightarrow> 'b \<Rightarrow> ('a \<times> ('b \<times> 'c) list) list" where
  "delete2 m a b = (case map_of m a of None \<Rightarrow> m | Some i \<Rightarrow> AList.update a (AList.delete b i) m)"

subsection \<open>Sorting\<close>

text \<open>
  \<open>sort.Sort\<close> of the standard library, driven by the \<open>Less\<close> of the \<open>sort.Interface\<close>:
  modelled as insertion sort.
\<close>

fun insert_by :: "('a \<Rightarrow> 'a \<Rightarrow> bool) \<Rightarrow> 'a \<Rightarrow> 'a list \<Rightarrow> 'a list" where
  "insert_by lt x [] = [x]"
| "insert_by lt x (y # ys) = (if lt y x then y # insert_by lt x ys else x # y # ys)"

definition sort_Sort :: "('a \<Rightarrow> 'a \<Rightarrow> bool) \<Rightarrow> 'a list \<Rightarrow> 'a list" where
  "sort_Sort lt xs = foldr (insert_by lt) xs []"

definition bySkillSnapAndName_Less :: "Skill ptr \<Rightarrow> Skill ptr \<Rightarrow> bool" where
  "bySkillSnapAndName_Less ci cj =
     (if Skill.Snap (deref ci) \<noteq> Skill.Snap (deref cj)
      then Skill.Snap (deref ci) < Skill.Snap (deref cj)
      else Skill.Name (deref ci) < Skill.Name (deref cj))"

definition bySlotSnapAndName_Less :: "Slot ptr \<Rightarrow> Slot ptr \<Rightarrow> bool" where
  "bySlotSnapAndName_Less ci cj =
     (if Slot.Snap (deref ci) \<noteq> Slot.Snap (deref cj)
      then Slot.Snap (deref ci) < Slot.Snap (deref cj)
      else Slot.Name (deref ci) < Slot.Name (deref cj))"

subsection \<open>Types\<close>

definition Repository_Type :: "string \<Rightarrow> Repository \<Rightarrow> Type option" where
  "Repository_Type typeName r = map_of (types r) typeName"

definition AddType :: "Externals \<Rightarrow> Type \<Rightarrow> Repository \<Rightarrow> error option \<times> Repository" where
  "AddType ext t r =
     (let typeName = Type.Name t in
      case ValidateName ext typeName of
        Some err \<Rightarrow> (Some err, r)
      | None \<Rightarrow>
          if map_of (types r) typeName \<noteq> None then (Some (AddType_NameInUse typeName), r)
          else (None, r\<lparr>types := AList.update typeName t (types r)\<rparr>))"

subsection \<open>Skills\<close>

definition AllSkills :: "string \<Rightarrow> Repository \<Rightarrow> Skill ptr list" where
  "AllSkills skillType r =
     sort_Sort bySkillSnapAndName_Less
       (concat (map (\<lambda>(_, skillsForSnap).
                  filter (\<lambda>skill. skillType = [] \<or> Skill.Type (deref skill) = skillType)
                    (map snd skillsForSnap))
          (skills r)))"

definition Skills :: "string \<Rightarrow> Repository \<Rightarrow> Skill ptr list" where
  "Skills snapName r = sort_Sort bySkillSnapAndName_Less (map snd (inner (skills r) snapName))"

definition Repository_Skill :: "string \<Rightarrow> string \<Rightarrow> Repository \<Rightarrow> Skill ptr option" where
  "Repository_Skill snapName skillName r = lookup2 (skills r) snapName skillName"

definition AddSkill :: "Externals \<Rightarrow> Skill ptr \<Rightarrow> Repository \<Rightarrow> error option \<times> Repository" where
  "AddSkill ext skill r =
     (case snap_ValidateName ext (Skill.Snap (deref skill)) of
        Some err \<Rightarrow> (Some err, r)
      | None \<Rightarrow>
     (case ValidateName ext (Skill.Name (deref skill)) of
        Some err \<Rightarrow> (Some err, r)
      | None \<Rightarrow>
     (case map_of (types r) (Skill.Type (deref skill)) of
        None \<Rightarrow> (Some (AddSkill_TypeNotKnown (Skill.Type (deref skill))), r)
      | Some t \<Rightarrow>
     (case Sanitize t skill of
        Some err \<Rightarrow> (Some err, r)
      | None \<Rightarrow>
          if lookup2 (skills r) (Skill.Snap (deref skill)) (Skill.Name (deref skill)) \<noteq> None
          then (Some (AddSkill_NameInUse (Skill.Name (deref skill))), r)
          else
            let r1 = r\<lparr>skills := make_if_nil (skills r) (Skill.Snap (deref skill))\<rparr>;
                r2 = r1\<lparr>skills := assign2 (skills r1) (Skill.Snap (deref skill))
                                     (Skill.Name (deref skill)) skill\<rparr>
            in (None, r2)))))"

definition RemoveSkill :: "string \<Rightarrow> string \<Rightarrow> Repository \<Rightarrow> error option \<times> Repository" where
  "RemoveSkill snapName skillName r =
     (case lookup2 (skills r) snapName skillName of
        None \<Rightarrow> (Some (RemoveSkill_NotExist snapName skillName), r)
      | Some skill \<Rightarrow>
          if length (inner (slotsUsingSkill r) skill) > 0
          then (Some (RemoveSkill_Used snapName skillName), r)
          else (None, r\<lparr>skills := delete2 (skills r) snapName skillName\<rparr>))"

subsection \<open>Slots\<close>

definition AllSlots :: "string \<Rightarrow> Repository \<Rightarrow> Slot ptr list" where
  "AllSlots skillType r =
     sort_Sort bySlotSnapAndName_Less
       (concat (map (\<lambda>(_, slotsForSnap).
                  filter (\<lambda>slot. skillType = [] \<or> Slot.Type (deref slot) = skillType)
                    (map snd slotsForSnap))
          (slots r)))"

definition Slots :: "string \<Rightarrow> Repository \<Rightarrow> Slot ptr list" where
  "Slots snapName r = sort_Sort bySlotSnapAndName_Less (map snd (inner (slots r) snapName))"

definition Repository_Slot :: "string \<Rightarrow> string \<Rightarrow> Repository \<Rightarrow> Slot ptr option" where
  "Repository_Slot snapName slotName r = lookup2 (slots r) snapName slotName"

definition AddSlot :: "Externals \<Rightarrow> Slot ptr \<Rightarrow> Repository \<Rightarrow> error option \<times> Repository" where
  "AddSlot ext slot r =
     (case ValidateName ext (Slot.Name (deref slot)) of
        Some err \<Rightarrow> (Some err, r)
      | None \<Rightarrow>
     (case map_of (types r) (Slot.Type (deref slot)) of
        None \<Rightarrow> (Some (AddSlot_TypeNotKnown (Slot.Type (deref slot))), r)
      | Some t \<Rightarrow>
          if lookup2 (slots r) (Slot.Snap (deref slot)) (Slot.Name (deref slot)) \<noteq> None
          then (Some (AddSlot_NameInUse (Slot.Name (deref slot))), r)
          else
            let r1 = r\<lparr>slots := make_if_nil (slots r) (Slot.Snap (deref slot))\<rparr>;
                r2 = r1\<lparr>slots := assign2 (slots r1) (Slot.Snap (deref slot))
                                    (Slot.Name (deref slot)) slot\<rparr>
            in (None, r2)))"

definition RemoveSlot :: "string \<Rightarrow> string \<Rightarrow> Repository \<Rightarrow> error option \<times> Repository" where
  "RemoveSlot snapName slotName r =
     (case lookup2 (slots r) snapName slotName of
        None \<Rightarrow> (Some (RemoveSlot_NotExist snapName slotName), r)
      | Some slot \<Rightarrow>
          if length (inner (skillUsedBySlot r) slot) > 0
          then (Some (RemoveSlot_Uses snapName slotName), r)
          else (None, r\<lparr>slots := delete2 (slots r) snapName slotName\<rparr>))"

subsection \<open>Grant and Revoke\<close>

definition Grant :: "string \<Rightarrow> string \<Rightarrow> string \<Rightarrow> string \<Rightarrow> Repository \<Rightarrow> error option \<times> Repository" where
  "Grant skillSnapName skillName slotSnapName slotName r =
     (case lookup2 (skills r) skillSnapName skillName of
        None \<Rightarrow> (Some (Grant_NoSuchSkill skillSnapName skillName), r)
      | Some skill \<Rightarrow>
     (case lookup2 (slots r) slotSnapName slotName of
        None \<Rightarrow> (Some (Grant_NoSuchSlot slotSnapName slotName), r)
      | Some slot \<Rightarrow>
          if Slot.Type (deref slot) \<noteq> Skill.Type (deref skill)
          then (Some (Grant_TypeMismatch (Skill.Type (deref skill)) (Slot.Type (deref slot))), r)
          else if holds2 (skillUsedBySlot r) slot skill
          then (Some (Grant_AlreadyUsed (Skill.Snap (deref skill)) (Skill.Name (deref skill))
                        (Slot.Snap (deref slot)) (Slot.Name (deref slot))), r)
          else
            let r1 = r\<lparr>skillUsedBySlot := make_if_nil (skillUsedBySlot r) slot\<rparr>;
                r2 = r1\<lparr>slotsUsingSkill := make_if_nil (slotsUsingSkill r1) skill\<rparr>;
                r3 = r2\<lparr>skillUsedBySlot := assign2 (skillUsedBySlot r2) slot skill True\<rparr>;
                r4 = r3\<lparr>slotsUsingSkill := assign2 (slotsUsingSkill r3) skill slot True\<rparr>
            in (None, r4)))"

definition Revoke :: "string \<Rightarrow> string \<Rightarrow> string \<Rightarrow> string \<Rightarrow> Repository \<Rightarrow> error option \<times> Repository" where
  "Revoke skillSnapName skillName slotSnapName slotName r =
     (case lookup2 (skills r) skillSnapName skillName of
        None \<Rightarrow> (Some (Revoke_NoSuchSkill skillSnapName skillName), r)
      | Some skill \<Rightarrow>
     (case lookup2 (slots r) slotSnapName slotName of
        None \<Rightarrow> (Some (Revoke_NoSuchSlot slotSnapName slotName), r)
      | Some slot \<Rightarrow>
          if \<not> holds2 (skillUsedBySlot r) slot skill
          then (Some (Revoke_NotUsed (Skill.Snap (deref skill)) (Skill.Name (deref skill))
                        (Slot.Snap (deref slot)) (Slot.Name (deref slot))), r)
          else
            let r1 = r\<lparr>skillUsedBySlot := delete2 (skillUsedBySlot r) slot skill\<rparr>;
                r2 = r1\<lparr>slotsUsingSkill := delete2 (slotsUsingSkill r1) skill slot\<rparr>
            in (None, r2)))"

text \<open>
  \<open>GrantedTo\<close>: for each slot of the snap, every skill of \<open>skillUsedBySlot[slot]\<close> is appended
  to \<open>result[slot]\<close>, and then \<open>result[slot]\<close> is sorted in place; a slot that uses no skill
  gets no key. \<open>GrantedBy\<close> is the same in the other direction.
\<close>

definition GrantedTo :: "string \<Rightarrow> Repository \<Rightarrow> (Slot ptr \<times> Skill ptr list) list" where
  "GrantedTo snapName r =
     foldl (\<lambda>result slot.
              let result1 = foldl (\<lambda>res skill. AList.update slot (inner res slot @ [skill]) res)
                              result (map fst (inner (skillUsedBySlot r) slot))
              in case map_of result1 slot of
                   None \<Rightarrow> result1
                 | Some c \<Rightarrow> AList.update slot (sort_Sort bySkillSnapAndName_Less c) result1)
       [] (map snd (inner (slots r) snapName))"

definition GrantedBy :: "string \<Rightarrow> Repository \<Rightarrow> (Skill ptr \<times> Slot ptr list) list" where
  "GrantedBy snapName r =
     foldl (\<lambda>result skill.
              let result1 = foldl (\<lambda>res slot. AList.update skill (inner res skill @ [slot]) res)
                              result (map fst (inner (slotsUsingSkill r) skill))
              in case map_of result1 skill of
                   None \<Rightarrow> result1
                 | Some c \<Rightarrow> AList.update skill (sort_Sort bySlotSnapAndName_Less c) result1)
       [] (map snd (inner (skills r) snapName))"

subsection \<open>Sequences of operations\<close>

datatype operation =
    OpAddType Type
  | OpAddSkill "Skill ptr"
  | OpRemoveSkill string string
  | OpAddSlot "Slot ptr"
  | OpRemoveSlot string string
  | OpGrant string string string string
  | OpRevoke string string string string

fun perform :: "Externals \<Rightarrow> operation \<Rightarrow> Repository \<Rightarrow> error option \<times> Repository" where
  "perform ext (OpAddType t) r = AddType ext t r"
| "perform ext (OpAddSkill skill) r = AddSkill ext skill r"
| "perform ext (OpRemoveSkill snapName skillName) r = RemoveSkill snapName skillName r"
| "perform ext (OpAddSlot slot) r = AddSlot ext slot r"
| "perform ext (OpRemoveSlot snapName slotName) r = RemoveSlot snapName slotName r"
| "perform ext (OpGrant a b c d) r = Grant a b c d r"
| "perform ext (OpRevoke a b c d) r = Revoke a b c d r"

text \<open>The states the repository can be in: \<open>NewRepository\<close>, then any operations, failed or not.\<close>

inductive reachable :: "Externals \<Rightarrow> Repository \<Rightarrow> bool" for ext :: Externals where
  reachable_new: "reachable ext NewRepository"
| reachable_step: "reachable ext r \<Longrightarrow> reachable ext (snd (perform ext op r))"

subsection \<open>What holds in every reachable state\<close>

text \<open>
  The two indexes mirror each other entry by entry; no entry holds \<open>false\<close>; a skill or slot
  sits in its table under its own snap and name; and both ends of every index entry are in
  the tables.
\<close>

definition edges_mirrored :: "Repository \<Rightarrow> bool" where
  "edges_mirrored r \<longleftrightarrow>
     (\<forall>slot skill. lookup2 (skillUsedBySlot r) slot skill = lookup2 (slotsUsingSkill r) skill slot)"

definition edges_true :: "Repository \<Rightarrow> bool" where
  "edges_true r \<longleftrightarrow> (\<forall>slot skill. lookup2 (skillUsedBySlot r) slot skill \<noteq> Some False)"

definition tables_keyed :: "Repository \<Rightarrow> bool" where
  "tables_keyed r \<longleftrightarrow>
     (\<forall>a n p. lookup2 (skills r) a n = Some p \<longrightarrow> Skill.Snap (deref p) = a \<and> Skill.Name (deref p) = n) \<and>
     (\<forall>a n p. lookup2 (slots r) a n = Some p \<longrightarrow> Slot.Snap (deref p) = a \<and> Slot.Name (deref p) = n)"

definition skill_present :: "Repository \<Rightarrow> Skill ptr \<Rightarrow> bool" where
  "skill_present r skill \<longleftrightarrow>
     lookup2 (skills r) (Skill.Snap (deref skill)) (Skill.Name (deref skill)) = Some skill"

definition slot_present :: "Repository \<Rightarrow> Slot ptr \<Rightarrow> bool" where
  "slot_present r slot \<longleftrightarrow>
     lookup2 (slots r) (Slot.Snap (deref slot)) (Slot.Name (deref slot)) = Some slot"

definition edges_present :: "Repository \<Rightarrow> bool" where
  "edges_present r \<longleftrightarrow>
     (\<forall>slot skill. lookup2 (skillUsedBySlot r) slot skill \<noteq> None \<longrightarrow>
        skill_present r skill \<and> slot_present r slot)"

definition invariant :: "Repository \<Rightarrow> bool" where
  "invariant r \<longleftrightarrow> edges_mirrored r \<and> edges_true r \<and> tables_keyed r \<and> edges_present r"

subsection \<open>A scenario\<close>

text \<open>
  Validators that reject exactly the empty name, a type \<open>net\<close> that accepts every skill,
  and the objects of the scenario: skill \<open>app1:iface\<close>, skill \<open>app0:zz\<close>, slot
  \<open>app2:uplink\<close>.
\<close>

definition ex_ext :: Externals where
  "ex_ext = \<lparr>snap_ValidateName = (\<lambda>s. if s = [] then Some (ExternalError ''invalid snap name'') else None),
             ValidateName = (\<lambda>s. if s = [] then Some (ExternalError ''invalid name'') else None)\<rparr>"

definition ex_net :: Type where
  "ex_net = \<lparr>Type.Name = ''net'', Sanitize = (\<lambda>_. None)\<rparr>"

definition ex_iface :: "Skill ptr" where
  "ex_iface = Ptr 1 \<lparr>Skill.Snap = ''app1'', Name = ''iface'', Type = ''net''\<rparr>"

definition ex_zz :: "Skill ptr" where
  "ex_zz = Ptr 3 \<lparr>Skill.Snap = ''app0'', Name = ''zz'', Type = ''net''\<rparr>"

definition ex_uplink :: "Slot ptr" where
  "ex_uplink = Ptr 2 \<lparr>Slot.Snap = ''app2'', Name = ''uplink'', Type = ''net''\<rparr>"

text \<open>The type is registered and the three objects are added.\<close>

definition ex_added :: Repository where
  "ex_added =
     \<lparr>types = [(''net'', ex_net)],
      skills = [(''app1'', [(''iface'', ex_iface)]), (''app0'', [(''zz'', ex_zz)])],
      slots = [(''app2'', [(''uplink'', ex_uplink)])],
      skillUsedBySlot = [],
      slotsUsingSkill = []\<rparr>"

text \<open>Then \<open>app1:iface\<close> is granted to \<open>app2:uplink\<close>.\<close>

definition ex_granted :: Repository where
  "ex_granted =
     ex_added\<lparr>skillUsedBySlot := [(ex_uplink, [(ex_iface, True)])],
              slotsUsingSkill := [(ex_iface, [(ex_uplink, True)])]\<rparr>"

text \<open>Then \<open>app0:zz\<close> is granted to \<open>app2:uplink\<close> as well.\<close>

definition ex_granted2 :: Repository where
  "ex_granted2 =
     ex_added\<lparr>skillUsedBySlot := [(ex_uplink, [(ex_iface, True), (ex_zz, True)])],
              slotsUsingSkill := [(ex_iface, [(ex_uplink, True)]), (ex_zz, [(ex_uplink, True)])]\<rparr>"

text \<open>A second type \<open>tty\<close> and a slot \<open>app2:serial\<close> of that type, added to \<open>ex_added\<close>.\<close>

definition ex_tty :: Type where
  "ex_tty = \<lparr>Type.Name = ''tty'', Sanitize = (\<lambda>_. None)\<rparr>"

definition ex_serial :: "Slot ptr" where
  "ex_serial = Ptr 4 \<lparr>Slot.Snap = ''app2'', Name = ''serial'', Type = ''tty''\<rparr>"

definition ex_mixed :: Repository where
  "ex_mixed =
     ex_added\<lparr>types := [(''net'', ex_net), (''tty'', ex_tty)],
              slots := [(''app2'', [(''uplink'', ex_uplink), (''serial'', ex_serial)])]\<rparr>"

text \<open>A type \<open>strict\<close> whose \<open>Sanitize\<close> rejects every skill, registered beside \<open>net\<close>.\<close>

definition ex_strict :: Type where
  "ex_strict = \<lparr>Type.Name = ''strict'', Sanitize = (\<lambda>_. Some (ExternalError ''rejected''))\<rparr>"

definition ex_typed :: Repository where
  "ex_typed = NewRepository\<lparr>types := [(''net'', ex_net), (''strict'', ex_strict)]\<rparr>"

text \<open>A slot \<open>app2:uplink\<close> of the type \<open>strict\<close>.\<close>

definition ex_strict_slot :: "Slot ptr" where
  "ex_strict_slot = Ptr 7 \<lparr>Slot.Snap = ''app2'', Name = ''uplink'', Type = ''strict''\<rparr>"

subsection \<open>Order of the listings\<close>

text \<open>
  Ascending by snap, then by name, the strings compared byte by byte (the order of a
  shorter string before its extensions), as Go's \<open><\<close> on strings does.
\<close>

definition skill_le :: "Skill ptr \<Rightarrow> Skill ptr \<Rightarrow> bool" where
  "skill_le x y \<longleftrightarrow>
     Skill.Snap (deref x) < Skill.Snap (deref y) \<or>
     (Skill.Snap (deref x) = Skill.Snap (deref y) \<and> Skill.Name (deref x) \<le> Skill.Name (deref y))"

definition slot_le :: "Slot ptr \<Rightarrow> Slot ptr \<Rightarrow> bool" where
  "slot_le x y \<longleftrightarrow>
     Slot.Snap (deref x) < Slot.Snap (deref y) \<or>
     (Slot.Snap (deref x) = Slot.Snap (deref y) \<and> Slot.Name (deref x) \<le> Slot.Name (deref y))"

text \<open>A result map of slices: the keys are distinct and every slice is in order.\<close>

definition slices_ok :: "('b \<Rightarrow> 'b \<Rightarrow> bool) \<Rightarrow> ('a \<times> 'b list) list \<Rightarrow> bool" where
  "slices_ok le result \<longleftrightarrow>
     distinct (map fst result) \<and> (\<forall>k c. map_of result k = Some c \<longrightarrow> sorted_wrt le c)"

text \<open>
  What a result map of slices holds: a key for exactly the members of \<open>S\<close> whose \<open>f\<close> is
  not empty, and under each key the elements of \<open>f\<close> of that key.
\<close>

definition slices_hold :: "('a \<Rightarrow> 'b list) \<Rightarrow> 'a set \<Rightarrow> ('a \<times> 'b list) list \<Rightarrow> bool" where
  "slices_hold f S result \<longleftrightarrow>
     (\<forall>k. map_of result k = None \<longleftrightarrow> k \<notin> S \<or> f k = []) \<and>
     (\<forall>k c. map_of result k = Some c \<longrightarrow> set c = set (f k))"

subsection \<open>Revoking the grants of a skill\<close>

text \<open>
  A caller revokes the skill \<open>skillSnapName:skillName\<close> from each slot of a list, one
  \<open>Revoke\<close> call per slot, whatever each call returns.
\<close>

definition revoke_each :: "string \<Rightarrow> string \<Rightarrow> Slot ptr list \<Rightarrow> Repository \<Rightarrow> Repository" where
  "revoke_each skillSnapName skillName cs r =
     foldl (\<lambda>r' slot. snd (Revoke skillSnapName skillName
                              (Slot.Snap (deref slot)) (Slot.Name (deref slot)) r')) r cs"

section \<open>Properties\<close>

subsection \<open>Failures leave the state alone\<close>

lemma AddType_error_unchanged: "fst (AddType ext t r) \<noteq> None \<Longrightarrow> snd (AddType ext t r) = r"
  by (simp add: AddType_def Let_def split: option.splits if_splits)

lemma AddSkill_error_unchanged: "fst (AddSkill ext skill r) \<noteq> None \<Longrightarrow> snd (AddSkill ext skill r) = r"
  by (simp add: AddSkill_def Let_def split: option.splits if_splits)

lemma RemoveSkill_error_unchanged: "fst (RemoveSkill a b r) \<noteq> None \<Longrightarrow> snd (RemoveSkill a b r) = r"
  by (simp add: RemoveSkill_def split: option.splits if_splits)

lemma AddSlot_error_unchanged: "fst (AddSlot ext slot r) \<noteq> None \<Longrightarrow> snd (AddSlot ext slot r) = r"
  by (simp add: AddSlot_def Let_def split: option.splits if_splits)

lemma RemoveSlot_error_unchanged: "fst (RemoveSlot a b r) \<noteq> None \<Longrightarrow> snd (RemoveSlot a b r) = r"
  by (simp add: RemoveSlot_def split: option.splits if_splits)

lemma Grant_error_unchanged: "fst (Grant a b c d r) \<noteq> None \<Longrightarrow> snd (Grant a b c d r) = r"
  by (simp add: Grant_def Let_def split: option.splits if_splits)

lemma Revoke_error_unchanged: "fst (Revoke a b c d r) \<noteq> None \<Longrightarrow> snd (Revoke a b c d r) = r"
  by (simp add: Revoke_def Let_def split: option.splits if_splits)

subsection \<open>Nested maps\<close>

lemma inner_make_if_nil: "inner (make_if_nil m a) a' = inner m a'"
  by (simp add: inner_def make_if_nil_def update_conv' split: option.splits)

lemma lookup2_make_if_nil: "lookup2 (make_if_nil m a) a' b' = lookup2 m a' b'"
  by (simp add: lookup2_def inner_make_if_nil)

lemma inner_assign2:
  "inner (assign2 m a b v) a' = (if a' = a then AList.update b v (inner m a) else inner m a')"
  by (simp add: inner_def assign2_def update_conv')

lemma lookup2_assign2:
  "lookup2 (assign2 m a b v) a' b' = (if a' = a \<and> b' = b then Some v else lookup2 m a' b')"
  by (simp add: lookup2_def inner_assign2 update_conv')

lemma inner_delete2:
  "inner (delete2 m a b) a' = (if a' = a then AList.delete b (inner m a) else inner m a')"
  by (simp add: inner_def delete2_def update_conv' split: option.splits)

lemma lookup2_delete2:
  "lookup2 (delete2 m a b) a' b' = (if a' = a \<and> b' = b then None else lookup2 m a' b')"
  by (simp add: lookup2_def inner_delete2 delete_conv')

lemma inner_empty_iff: "inner m a = [] \<longleftrightarrow> (\<forall>b. lookup2 m a b = None)"
proof
  assume "inner m a = []" then show "\<forall>b. lookup2 m a b = None" by (simp add: lookup2_def)
next
  assume h: "\<forall>b. lookup2 m a b = None"
  show "inner m a = []"
  proof (cases "inner m a")
    case Nil then show ?thesis .
  next
    case (Cons p ps)
    then have "lookup2 m a (fst p) = Some (snd p)" by (cases p) (simp add: lookup2_def)
    with h show ?thesis by simp
  qed
qed

subsection \<open>The invariant\<close>

lemmas inv_defs = invariant_def edges_mirrored_def edges_true_def tables_keyed_def edges_present_def
  skill_present_def slot_present_def

lemma invariant_New: "invariant NewRepository"
  by (simp add: inv_defs NewRepository_def lookup2_def inner_def)


lemma AddType_frame:
  "skills (snd (AddType ext t r)) = skills r \<and> slots (snd (AddType ext t r)) = slots r \<and>
   skillUsedBySlot (snd (AddType ext t r)) = skillUsedBySlot r \<and>
   slotsUsingSkill (snd (AddType ext t r)) = slotsUsingSkill r"
  by (simp add: AddType_def Let_def split: option.splits)

lemma AddSkill_success:
  assumes "fst (AddSkill ext skill r) = None"
  shows "lookup2 (skills r) (Skill.Snap (deref skill)) (Skill.Name (deref skill)) = None"
    and "snd (AddSkill ext skill r) =
         r\<lparr>skills := assign2 (make_if_nil (skills r) (Skill.Snap (deref skill)))
                      (Skill.Snap (deref skill)) (Skill.Name (deref skill)) skill\<rparr>"
  using assms by (auto simp: AddSkill_def Let_def split: option.splits if_splits)

lemma AddSlot_success:
  assumes "fst (AddSlot ext slot r) = None"
  shows "lookup2 (slots r) (Slot.Snap (deref slot)) (Slot.Name (deref slot)) = None"
    and "snd (AddSlot ext slot r) =
         r\<lparr>slots := assign2 (make_if_nil (slots r) (Slot.Snap (deref slot)))
                      (Slot.Snap (deref slot)) (Slot.Name (deref slot)) slot\<rparr>"
  using assms by (auto simp: AddSlot_def Let_def split: option.splits if_splits)

lemma RemoveSkill_success:
  assumes "fst (RemoveSkill a n r) = None"
  shows "\<exists>skill. lookup2 (skills r) a n = Some skill \<and> inner (slotsUsingSkill r) skill = []"
    and "snd (RemoveSkill a n r) = r\<lparr>skills := delete2 (skills r) a n\<rparr>"
  using assms by (auto simp: RemoveSkill_def split: option.splits if_splits)

lemma RemoveSlot_success:
  assumes "fst (RemoveSlot a n r) = None"
  shows "\<exists>slot. lookup2 (slots r) a n = Some slot \<and> inner (skillUsedBySlot r) slot = []"
    and "snd (RemoveSlot a n r) = r\<lparr>slots := delete2 (slots r) a n\<rparr>"
  using assms by (auto simp: RemoveSlot_def split: option.splits if_splits)

lemma Grant_success:
  assumes "fst (Grant a b c d r) = None"
  shows "\<exists>skill slot. lookup2 (skills r) a b = Some skill \<and> lookup2 (slots r) c d = Some slot \<and>
           Slot.Type (deref slot) = Skill.Type (deref skill) \<and>
           \<not> holds2 (skillUsedBySlot r) slot skill \<and>
           snd (Grant a b c d r) =
             r\<lparr>skillUsedBySlot := assign2 (make_if_nil (skillUsedBySlot r) slot) slot skill True,
                slotsUsingSkill := assign2 (make_if_nil (slotsUsingSkill r) skill) skill slot True\<rparr>"
  using assms by (auto simp: Grant_def Let_def split: option.splits if_splits)

lemma Revoke_success:
  assumes "fst (Revoke a b c d r) = None"
  shows "\<exists>skill slot. lookup2 (skills r) a b = Some skill \<and> lookup2 (slots r) c d = Some slot \<and>
           holds2 (skillUsedBySlot r) slot skill \<and>
           snd (Revoke a b c d r) =
             r\<lparr>skillUsedBySlot := delete2 (skillUsedBySlot r) slot skill,
                slotsUsingSkill := delete2 (slotsUsingSkill r) skill slot\<rparr>"
  using assms by (auto simp: Revoke_def Let_def split: option.splits if_splits)

lemmas lookup2_simps = lookup2_assign2 lookup2_make_if_nil lookup2_delete2

lemma invariant_cong:
  "skills r' = skills r \<Longrightarrow> slots r' = slots r \<Longrightarrow> skillUsedBySlot r' = skillUsedBySlot r \<Longrightarrow>
   slotsUsingSkill r' = slotsUsingSkill r \<Longrightarrow> invariant r' = invariant r"
  by (simp add: inv_defs)

lemma invariant_AddType: "invariant r \<Longrightarrow> invariant (snd (AddType ext t r))"
  by (simp add: invariant_cong [of "snd (AddType ext t r)" r] AddType_frame)

lemma invariant_AddSkill:
  assumes inv: "invariant r"
  shows "invariant (snd (AddSkill ext skill r))"
proof (cases "fst (AddSkill ext skill r)")
  case (Some e)
  then show ?thesis using inv by (simp add: AddSkill_error_unchanged)
next
  case None
  note free = AddSkill_success(1)[OF None]
  let ?r' = "snd (AddSkill ext skill r)"
  have r': "?r' = r\<lparr>skills := assign2 (make_if_nil (skills r) (Skill.Snap (deref skill)))
                      (Skill.Snap (deref skill)) (Skill.Name (deref skill)) skill\<rparr>"
    by (rule AddSkill_success(2)[OF None])
  have m: "edges_mirrored ?r'" using inv by (simp add: r' invariant_def edges_mirrored_def)
  have t: "edges_true ?r'" using inv by (simp add: r' invariant_def edges_true_def)
  have k: "tables_keyed ?r'" using inv
    by (simp add: r' invariant_def tables_keyed_def lookup2_simps)
  have p: "edges_present ?r'"
    unfolding edges_present_def skill_present_def slot_present_def
  proof (intro allI impI)
    fix slot sk assume e: "lookup2 (skillUsedBySlot ?r') slot sk \<noteq> None"
    then have "lookup2 (skillUsedBySlot r) slot sk \<noteq> None" by (simp add: r')
    with inv have old: "lookup2 (skills r) (Skill.Snap (deref sk)) (Skill.Name (deref sk)) = Some sk"
      "lookup2 (slots r) (Slot.Snap (deref slot)) (Slot.Name (deref slot)) = Some slot"
      by (auto simp: inv_defs)
    from old(1) free have "\<not> (Skill.Snap (deref sk) = Skill.Snap (deref skill) \<and>
         Skill.Name (deref sk) = Skill.Name (deref skill))" by auto
    with old show "lookup2 (skills ?r') (Skill.Snap (deref sk)) (Skill.Name (deref sk)) = Some sk \<and>
        lookup2 (slots ?r') (Slot.Snap (deref slot)) (Slot.Name (deref slot)) = Some slot"
      by (auto simp add: r' lookup2_simps)
  qed
  show ?thesis using m t k p by (simp add: invariant_def)
qed


lemma invariant_AddSlot:
  assumes inv: "invariant r"
  shows "invariant (snd (AddSlot ext slot r))"
proof (cases "fst (AddSlot ext slot r)")
  case (Some e)
  then show ?thesis using inv by (simp add: AddSlot_error_unchanged)
next
  case None
  note free = AddSlot_success(1)[OF None]
  let ?r' = "snd (AddSlot ext slot r)"
  have r': "?r' = r\<lparr>slots := assign2 (make_if_nil (slots r) (Slot.Snap (deref slot)))
                      (Slot.Snap (deref slot)) (Slot.Name (deref slot)) slot\<rparr>"
    by (rule AddSlot_success(2)[OF None])
  have m: "edges_mirrored ?r'" using inv by (simp add: r' invariant_def edges_mirrored_def)
  have t: "edges_true ?r'" using inv by (simp add: r' invariant_def edges_true_def)
  have k: "tables_keyed ?r'" using inv
    by (simp add: r' invariant_def tables_keyed_def lookup2_simps)
  have p: "edges_present ?r'"
    unfolding edges_present_def skill_present_def slot_present_def
  proof (intro allI impI)
    fix sl sk assume e: "lookup2 (skillUsedBySlot ?r') sl sk \<noteq> None"
    then have "lookup2 (skillUsedBySlot r) sl sk \<noteq> None" by (simp add: r')
    with inv have old: "lookup2 (skills r) (Skill.Snap (deref sk)) (Skill.Name (deref sk)) = Some sk"
      "lookup2 (slots r) (Slot.Snap (deref sl)) (Slot.Name (deref sl)) = Some sl"
      by (auto simp: inv_defs)
    from old(2) free have "\<not> (Slot.Snap (deref sl) = Slot.Snap (deref slot) \<and>
         Slot.Name (deref sl) = Slot.Name (deref slot))" by auto
    with old show "lookup2 (skills ?r') (Skill.Snap (deref sk)) (Skill.Name (deref sk)) = Some sk \<and>
        lookup2 (slots ?r') (Slot.Snap (deref sl)) (Slot.Name (deref sl)) = Some sl"
      by (auto simp add: r' lookup2_simps)
  qed
  show ?thesis using m t k p by (simp add: invariant_def)
qed

lemma invariant_RemoveSkill:
  assumes inv: "invariant r"
  shows "invariant (snd (RemoveSkill a n r))"
proof (cases "fst (RemoveSkill a n r)")
  case (Some e)
  then show ?thesis using inv by (simp add: RemoveSkill_error_unchanged)
next
  case None
  from RemoveSkill_success(1)[OF None] obtain skill where
    sk: "lookup2 (skills r) a n = Some skill" and unused: "inner (slotsUsingSkill r) skill = []"
    by blast
  let ?r' = "snd (RemoveSkill a n r)"
  have r': "?r' = r\<lparr>skills := delete2 (skills r) a n\<rparr>"
    by (rule RemoveSkill_success(2)[OF None])
  have m: "edges_mirrored ?r'" using inv by (simp add: r' invariant_def edges_mirrored_def)
  have t: "edges_true ?r'" using inv by (simp add: r' invariant_def edges_true_def)
  have k: "tables_keyed ?r'" using inv
    by (simp add: r' invariant_def tables_keyed_def lookup2_simps)
  have p: "edges_present ?r'"
    unfolding edges_present_def skill_present_def slot_present_def
  proof (intro allI impI)
    fix sl s assume e: "lookup2 (skillUsedBySlot ?r') sl s \<noteq> None"
    then have e': "lookup2 (skillUsedBySlot r) sl s \<noteq> None" by (simp add: r')
    with inv have old: "lookup2 (skills r) (Skill.Snap (deref s)) (Skill.Name (deref s)) = Some s"
      "lookup2 (slots r) (Slot.Snap (deref sl)) (Slot.Name (deref sl)) = Some sl"
      by (auto simp: inv_defs)
    from inv e' have "lookup2 (slotsUsingSkill r) s sl \<noteq> None"
      by (simp add: invariant_def edges_mirrored_def)
    with unused have "s \<noteq> skill" by (auto simp: lookup2_def)
    with old(1) sk have "\<not> (Skill.Snap (deref s) = a \<and> Skill.Name (deref s) = n)" by auto
    with old show "lookup2 (skills ?r') (Skill.Snap (deref s)) (Skill.Name (deref s)) = Some s \<and>
        lookup2 (slots ?r') (Slot.Snap (deref sl)) (Slot.Name (deref sl)) = Some sl"
      by (auto simp add: r' lookup2_simps)
  qed
  show ?thesis using m t k p by (simp add: invariant_def)
qed

lemma invariant_RemoveSlot:
  assumes inv: "invariant r"
  shows "invariant (snd (RemoveSlot a n r))"
proof (cases "fst (RemoveSlot a n r)")
  case (Some e)
  then show ?thesis using inv by (simp add: RemoveSlot_error_unchanged)
next
  case None
  from RemoveSlot_success(1)[OF None] obtain slot where
    sl: "lookup2 (slots r) a n = Some slot" and unused: "inner (skillUsedBySlot r) slot = []"
    by blast
  let ?r' = "snd (RemoveSlot a n r)"
  have r': "?r' = r\<lparr>slots := delete2 (slots r) a n\<rparr>"
    by (rule RemoveSlot_success(2)[OF None])
  have m: "edges_mirrored ?r'" using inv by (simp add: r' invariant_def edges_mirrored_def)
  have t: "edges_true ?r'" using inv by (simp add: r' invariant_def edges_true_def)
  have k: "tables_keyed ?r'" using inv
    by (simp add: r' invariant_def tables_keyed_def lookup2_simps)
  have p: "edges_present ?r'"
    unfolding edges_present_def skill_present_def slot_present_def
  proof (intro allI impI)
    fix c s assume e: "lookup2 (skillUsedBySlot ?r') c s \<noteq> None"
    then have e': "lookup2 (skillUsedBySlot r) c s \<noteq> None" by (simp add: r')
    with inv have old: "lookup2 (skills r) (Skill.Snap (deref s)) (Skill.Name (deref s)) = Some s"
      "lookup2 (slots r) (Slot.Snap (deref c)) (Slot.Name (deref c)) = Some c"
      by (auto simp: inv_defs)
    from e' unused have "c \<noteq> slot" by (auto simp: lookup2_def)
    with old(2) sl have "\<not> (Slot.Snap (deref c) = a \<and> Slot.Name (deref c) = n)" by auto
    with old show "lookup2 (skills ?r') (Skill.Snap (deref s)) (Skill.Name (deref s)) = Some s \<and>
        lookup2 (slots ?r') (Slot.Snap (deref c)) (Slot.Name (deref c)) = Some c"
      by (auto simp add: r' lookup2_simps)
  qed
  show ?thesis using m t k p by (simp add: invariant_def)
qed

lemma invariant_Grant:
  assumes inv: "invariant r"
  shows "invariant (snd (Grant a b c d r))"
proof (cases "fst (Grant a b c d r)")
  case (Some e)
  then show ?thesis using inv by (simp add: Grant_error_unchanged)
next
  case None
  let ?r' = "snd (Grant a b c d r)"
  from Grant_success[OF None] obtain skill slot where
    sk: "lookup2 (skills r) a b = Some skill" and sl: "lookup2 (slots r) c d = Some slot" and
    r': "?r' = r\<lparr>skillUsedBySlot := assign2 (make_if_nil (skillUsedBySlot r) slot) slot skill True,
                slotsUsingSkill := assign2 (make_if_nil (slotsUsingSkill r) skill) skill slot True\<rparr>"
    by blast
  from inv sk sl have here: "skill_present r skill" "slot_present r slot"
    by (auto simp: invariant_def tables_keyed_def skill_present_def slot_present_def)
  have m: "edges_mirrored ?r'" using inv
    by (auto simp add: r' invariant_def edges_mirrored_def lookup2_simps)
  have t: "edges_true ?r'" using inv
    by (auto simp add: r' invariant_def edges_true_def lookup2_simps)
  have k: "tables_keyed ?r'" using inv by (simp add: r' invariant_def tables_keyed_def)
  have p: "edges_present ?r'" using inv here
    by (auto simp add: r' invariant_def edges_present_def skill_present_def slot_present_def
          lookup2_simps split: if_splits)
  show ?thesis using m t k p by (simp add: invariant_def)
qed

lemma invariant_Revoke:
  assumes inv: "invariant r"
  shows "invariant (snd (Revoke a b c d r))"
proof (cases "fst (Revoke a b c d r)")
  case (Some e)
  then show ?thesis using inv by (simp add: Revoke_error_unchanged)
next
  case None
  let ?r' = "snd (Revoke a b c d r)"
  from Revoke_success[OF None] obtain skill slot where
    r': "?r' = r\<lparr>skillUsedBySlot := delete2 (skillUsedBySlot r) slot skill,
                slotsUsingSkill := delete2 (slotsUsingSkill r) skill slot\<rparr>"
    by blast
  have m: "edges_mirrored ?r'" using inv
    by (auto simp add: r' invariant_def edges_mirrored_def lookup2_simps)
  have t: "edges_true ?r'" using inv
    by (auto simp add: r' invariant_def edges_true_def lookup2_simps)
  have k: "tables_keyed ?r'" using inv by (simp add: r' invariant_def tables_keyed_def)
  have p: "edges_present ?r'" using inv
    by (auto simp add: r' invariant_def edges_present_def skill_present_def slot_present_def
          lookup2_simps split: if_splits)
  show ?thesis using m t k p by (simp add: invariant_def)
qed

lemma invariant_perform: "invariant r \<Longrightarrow> invariant (snd (perform ext op r))"
  by (cases op) (simp_all add: invariant_AddType invariant_AddSkill invariant_RemoveSkill
      invariant_AddSlot invariant_RemoveSlot invariant_Grant invariant_Revoke)

lemma reachable_invariant: "reachable ext r \<Longrightarrow> invariant r"
  by (induction rule: reachable.induct) (simp_all add: invariant_New invariant_perform)

subsection \<open>The scenario is reachable\<close>

lemmas ex_defs = ex_ext_def ex_net_def ex_iface_def ex_zz_def ex_uplink_def ex_tty_def ex_serial_def
  ex_strict_def
lemmas map_defs = lookup2_def inner_def holds2_def make_if_nil_def assign2_def delete2_def

lemma ex_step1: "snd (perform ex_ext (OpAddType ex_net) NewRepository) = NewRepository\<lparr>types := [(''net'', ex_net)]\<rparr>"
  by (simp add: AddType_def Let_def NewRepository_def ex_ext_def ex_net_def)

lemma ex_step2: "snd (perform ex_ext (OpAddSkill ex_iface) (NewRepository\<lparr>types := [(''net'', ex_net)]\<rparr>))
   = NewRepository\<lparr>types := [(''net'', ex_net)], skills := [(''app1'', [(''iface'', ex_iface)])]\<rparr>"
  by (simp add: AddSkill_def NewRepository_def ex_defs map_defs)

lemma ex_step3: "snd (perform ex_ext (OpAddSkill ex_zz) (NewRepository\<lparr>types := [(''net'', ex_net)], skills := [(''app1'', [(''iface'', ex_iface)])]\<rparr>))
   = NewRepository\<lparr>types := [(''net'', ex_net)], skills := [(''app1'', [(''iface'', ex_iface)]), (''app0'', [(''zz'', ex_zz)])]\<rparr>"
  by (simp add: AddSkill_def NewRepository_def ex_defs map_defs)

lemma ex_step4: "snd (perform ex_ext (OpAddSlot ex_uplink) (NewRepository\<lparr>types := [(''net'', ex_net)], skills := [(''app1'', [(''iface'', ex_iface)]), (''app0'', [(''zz'', ex_zz)])]\<rparr>))
   = ex_added"
  by (simp add: AddSlot_def NewRepository_def ex_added_def ex_defs map_defs)

lemma ex_step5: "snd (perform ex_ext (OpGrant ''app1'' ''iface'' ''app2'' ''uplink'') ex_added) = ex_granted"
  by (simp add: Grant_def ex_added_def ex_granted_def ex_defs map_defs)

lemma ex_step6: "snd (perform ex_ext (OpGrant ''app0'' ''zz'' ''app2'' ''uplink'') ex_granted) = ex_granted2"
  by (simp add: Grant_def ex_added_def ex_granted_def ex_granted2_def ex_defs map_defs)

lemma reachable_ex_added: "reachable ex_ext ex_added"
proof -
  note s = reachable_step [where ext = ex_ext]
  from s [OF reachable_new, of "OpAddType ex_net"]
  have "reachable ex_ext (NewRepository\<lparr>types := [(''net'', ex_net)]\<rparr>)" by (simp only: ex_step1)
  from s [OF this, of "OpAddSkill ex_iface"]
  have "reachable ex_ext (NewRepository\<lparr>types := [(''net'', ex_net)], skills := [(''app1'', [(''iface'', ex_iface)])]\<rparr>)"
    by (simp only: ex_step2)
  from s [OF this, of "OpAddSkill ex_zz"]
  have "reachable ex_ext (NewRepository\<lparr>types := [(''net'', ex_net)], skills := [(''app1'', [(''iface'', ex_iface)]), (''app0'', [(''zz'', ex_zz)])]\<rparr>)"
    by (simp only: ex_step3)
  from s [OF this, of "OpAddSlot ex_uplink"]
  show ?thesis by (simp only: ex_step4)
qed

lemma reachable_ex_granted: "reachable ex_ext ex_granted"
  using reachable_step [OF reachable_ex_added, of "OpGrant ''app1'' ''iface'' ''app2'' ''uplink''"]
  by (simp only: ex_step5)

lemma reachable_ex_granted2: "reachable ex_ext ex_granted2"
  using reachable_step [OF reachable_ex_granted, of "OpGrant ''app0'' ''zz'' ''app2'' ''uplink''"]
  by (simp only: ex_step6)

lemma ex_lookups:
  "Repository_Skill ''app1'' ''iface'' ex_added = Some ex_iface"
  "Repository_Slot ''app2'' ''uplink'' ex_added = Some ex_uplink"
  "Repository_Skill ''app1'' ''iface'' ex_granted = Some ex_iface"
  "Repository_Slot ''app2'' ''uplink'' ex_granted = Some ex_uplink"
  "Repository_Skill ''app0'' ''zz'' ex_granted = Some ex_zz"
  "Repository_Skill ''app1'' ''iface'' ex_mixed = Some ex_iface"
  "Repository_Slot ''app2'' ''serial'' ex_mixed = Some ex_serial"
  "Repository_Slot ''app2'' ''nothere'' ex_added = None"
  by (simp_all add: ex_mixed_def Repository_Skill_def Repository_Slot_def ex_added_def ex_granted_def map_defs)

lemma ex_ext_simps:
  "snap_ValidateName ex_ext [] = Some (ExternalError ''invalid snap name'')"
  "ValidateName ex_ext [] = Some (ExternalError ''invalid name'')"
  "s \<noteq> [] \<Longrightarrow> snap_ValidateName ex_ext s = None"
  "s \<noteq> [] \<Longrightarrow> ValidateName ex_ext s = None"
  by (simp_all add: ex_ext_def)

lemma ex_types:
  "Repository_Type ''net'' ex_typed = Some ex_net"
  "Repository_Type ''strict'' ex_typed = Some ex_strict"
  "Repository_Type ''net'' ex_added = Some ex_net"
  "Repository_Type ''net'' NewRepository = None"
  by (simp_all add: Repository_Type_def ex_typed_def ex_added_def NewRepository_def)

subsection \<open>Sorting\<close>

lemma set_insert_by: "set (insert_by lt x ys) = insert x (set ys)"
  by (induction ys) auto

lemma set_sort_Sort: "set (sort_Sort lt xs) = set xs"
  by (induction xs) (simp_all add: sort_Sort_def set_insert_by)

lemma sorted_insert_by:
  assumes asym: "\<And>x y. lt x y \<Longrightarrow> le x y"
    and tot: "\<And>x y. \<not> lt y x \<Longrightarrow> le x y"
    and trans: "\<And>x y z. le x y \<Longrightarrow> le y z \<Longrightarrow> le x z"
  shows "sorted_wrt le ys \<Longrightarrow> sorted_wrt le (insert_by lt x ys)"
proof (induction ys)
  case Nil
  then show ?case by simp
next
  case (Cons y ys)
  show ?case
  proof (cases "lt y x")
    case True
    with Cons asym show ?thesis by (auto simp: set_insert_by)
  next
    case False
    then have "le x y" by (rule tot)
    with Cons.prems trans have "\<forall>z\<in>set ys. le x z" by auto
    with False \<open>le x y\<close> Cons.prems show ?thesis by simp
  qed
qed

lemma sorted_sort_Sort:
  assumes "\<And>x y. lt x y \<Longrightarrow> le x y" "\<And>x y. \<not> lt y x \<Longrightarrow> le x y"
    "\<And>x y z. le x y \<Longrightarrow> le y z \<Longrightarrow> le x z"
  shows "sorted_wrt le (sort_Sort lt xs)"
proof (induction xs)
  case Nil
  then show ?case by (simp add: sort_Sort_def)
next
  case (Cons x xs)
  have "sort_Sort lt (x # xs) = insert_by lt x (sort_Sort lt xs)" by (simp add: sort_Sort_def)
  with Cons sorted_insert_by [of lt le, OF assms] show ?case by simp
qed

lemma sorted_skills: "sorted_wrt skill_le (sort_Sort bySkillSnapAndName_Less xs)"
proof (rule sorted_sort_Sort)
  fix x y z :: "Skill ptr"
  show "bySkillSnapAndName_Less x y \<Longrightarrow> skill_le x y"
    by (auto simp: bySkillSnapAndName_Less_def skill_le_def split: if_splits)
  show "\<not> bySkillSnapAndName_Less y x \<Longrightarrow> skill_le x y"
    by (auto simp: bySkillSnapAndName_Less_def skill_le_def split: if_splits)
  show "skill_le x y \<Longrightarrow> skill_le y z \<Longrightarrow> skill_le x z"
    by (auto simp: skill_le_def)
qed

lemma sorted_slots: "sorted_wrt slot_le (sort_Sort bySlotSnapAndName_Less xs)"
proof (rule sorted_sort_Sort)
  fix x y z :: "Slot ptr"
  show "bySlotSnapAndName_Less x y \<Longrightarrow> slot_le x y"
    by (auto simp: bySlotSnapAndName_Less_def slot_le_def split: if_splits)
  show "\<not> bySlotSnapAndName_Less y x \<Longrightarrow> slot_le x y"
    by (auto simp: bySlotSnapAndName_Less_def slot_le_def split: if_splits)
  show "slot_le x y \<Longrightarrow> slot_le y z \<Longrightarrow> slot_le x z"
    by (auto simp: slot_le_def)
qed


lemma append_loop:
  "distinct (map fst result) \<Longrightarrow>
   distinct (map fst (foldl (\<lambda>res x. AList.update k (inner res k @ [x]) res) result xs)) \<and>
   (\<forall>k'. k' \<noteq> k \<longrightarrow>
      map_of (foldl (\<lambda>res x. AList.update k (inner res k @ [x]) res) result xs) k' = map_of result k')"
proof (induction xs arbitrary: result)
  case Nil
  then show ?case by simp
next
  case (Cons x xs)
  have d: "distinct (map fst (AList.update k (inner result k @ [x]) result))"
    using Cons.prems by (rule distinct_update)
  from Cons.IH [OF d] show ?case by (simp add: update_conv')
qed

lemma granted_step_ok:
  assumes srt: "\<And>c. sorted_wrt le (sort_Sort lt c)"
    and old: "slices_ok le result"
  shows "slices_ok le
          (let result1 = foldl (\<lambda>res x. AList.update k (inner res k @ [x]) res) result xs
           in case map_of result1 k of
                None \<Rightarrow> result1
              | Some c \<Rightarrow> AList.update k (sort_Sort lt c) result1)"
proof -
  let ?result1 = "foldl (\<lambda>res x. AList.update k (inner res k @ [x]) res) result xs"
  from old have "distinct (map fst result)" by (simp add: slices_ok_def)
  from append_loop [OF this, of k xs]
  have d: "distinct (map fst ?result1)"
    and o: "\<And>k'. k' \<noteq> k \<Longrightarrow> map_of ?result1 k' = map_of result k'" by simp_all
  show ?thesis
  proof (cases "map_of ?result1 k")
    case None
    have "\<And>k' c. map_of ?result1 k' = Some c \<Longrightarrow> sorted_wrt le c"
    proof -
      fix k' c assume m: "map_of ?result1 k' = Some c"
      with None have "k' \<noteq> k" by auto
      with o m have "map_of result k' = Some c" by simp
      with old show "sorted_wrt le c" by (simp add: slices_ok_def)
    qed
    with d None show ?thesis by (simp add: slices_ok_def)
  next
    case (Some c0)
    have "\<And>k' c. map_of (AList.update k (sort_Sort lt c0) ?result1) k' = Some c \<Longrightarrow> sorted_wrt le c"
    proof -
      fix k' c assume m: "map_of (AList.update k (sort_Sort lt c0) ?result1) k' = Some c"
      show "sorted_wrt le c"
      proof (cases "k' = k")
        case True
        with m have "c = sort_Sort lt c0" by (simp add: update_conv')
        with srt show ?thesis by simp
      next
        case False
        with m have "map_of ?result1 k' = Some c" by (simp add: update_conv')
        with o False have "map_of result k' = Some c" by simp
        with old show ?thesis by (simp add: slices_ok_def)
      qed
    qed
    with d Some show ?thesis by (simp add: slices_ok_def distinct_update)
  qed
qed

lemma granted_loop_ok:
  assumes srt: "\<And>c. sorted_wrt le (sort_Sort lt c)"
  shows "slices_ok le result \<Longrightarrow>
    slices_ok le (foldl (\<lambda>result k.
              let result1 = foldl (\<lambda>res x. AList.update k (inner res k @ [x]) res)
                              result (f k)
              in case map_of result1 k of
                   None \<Rightarrow> result1
                 | Some c \<Rightarrow> AList.update k (sort_Sort lt c) result1) result ks)"
proof (induction ks arbitrary: result)
  case Nil
  then show ?case by simp
next
  case (Cons k ks)
  from granted_step_ok [of le lt result k "f k", OF srt Cons.prems]
  have "slices_ok le
          (let result1 = foldl (\<lambda>res x. AList.update k (inner res k @ [x]) res) result (f k)
           in case map_of result1 k of
                None \<Rightarrow> result1
              | Some c \<Rightarrow> AList.update k (sort_Sort lt c) result1)" .
  from Cons.IH [OF this] show ?case by simp
qed

lemma slices_ok_GrantedTo: "slices_ok skill_le (GrantedTo snapName r)"
  unfolding GrantedTo_def
  by (rule granted_loop_ok [where f = "\<lambda>slot. map fst (inner (skillUsedBySlot r) slot)"])
     (simp_all add: sorted_skills slices_ok_def)

lemma slices_ok_GrantedBy: "slices_ok slot_le (GrantedBy snapName r)"
  unfolding GrantedBy_def
  by (rule granted_loop_ok [where f = "\<lambda>skill. map fst (inner (slotsUsingSkill r) skill)"])
     (simp_all add: sorted_slots slices_ok_def)

lemma slices_ok_member: "slices_ok le result \<Longrightarrow> (k, c) \<in> set result \<Longrightarrow> sorted_wrt le c"
  by (simp add: slices_ok_def)

lemma length_insert_by: "length (insert_by lt x ys) = Suc (length ys)"
  by (induction ys) auto

lemma length_sort_Sort: "length (sort_Sort lt xs) = length xs"
  by (induction xs) (simp_all add: sort_Sort_def length_insert_by)

lemma append_loop_key:
  "map_of (foldl (\<lambda>res x. AList.update k (inner res k @ [x]) res) result xs) k =
     (if xs = [] then map_of result k else Some (inner result k @ xs))"
proof (induction xs arbitrary: result)
  case Nil
  then show ?case by simp
next
  case (Cons x xs)
  let ?r1 = "AList.update k (inner result k @ [x]) result"
  have "inner ?r1 k = inner result k @ [x]" by (simp add: inner_def update_conv')
  moreover have "map_of ?r1 k = Some (inner result k @ [x])" by (simp add: update_conv')
  ultimately show ?case using Cons.IH [of ?r1] by simp
qed

lemma append_loop_other:
  "k' \<noteq> k \<Longrightarrow>
   map_of (foldl (\<lambda>res x. AList.update k (inner res k @ [x]) res) result xs) k' = map_of result k'"
  by (induction xs arbitrary: result) (simp_all add: update_conv')

lemma granted_step_hold:
  assumes old: "slices_hold f S result"
  shows "slices_hold f (insert k S)
          (let result1 = foldl (\<lambda>res x. AList.update k (inner res k @ [x]) res) result (f k)
           in case map_of result1 k of
                None \<Rightarrow> result1
              | Some c \<Rightarrow> AList.update k (sort_Sort lt c) result1)"
proof -
  let ?result1 = "foldl (\<lambda>res x. AList.update k (inner res k @ [x]) res) result (f k)"
  let ?result2 = "case map_of ?result1 k of None \<Rightarrow> ?result1
                  | Some c \<Rightarrow> AList.update k (sort_Sort lt c) ?result1"
  note key = append_loop_key [of k result "f k"]
  have other: "map_of ?result2 k' = map_of result k'" if "k' \<noteq> k" for k'
    using that by (simp add: append_loop_other update_conv' split: option.splits)
  from old have none: "\<And>j. map_of result j = None \<longleftrightarrow> j \<notin> S \<or> f j = []"
    and some: "\<And>j c. map_of result j = Some c \<Longrightarrow> set c = set (f j)"
    unfolding slices_hold_def by blast+
  have before: "set (inner result k) \<subseteq> set (f k)"
  proof (cases "map_of result k")
    case None
    then show ?thesis by (simp add: inner_def)
  next
    case (Some c)
    with some [OF Some] show ?thesis by (simp add: inner_def)
  qed
  have here: "map_of ?result2 k = (if f k = [] then None else Some (sort_Sort lt (inner result k @ f k)))"
  proof (cases "f k = []")
    case True
    with none [of k] have "map_of result k = None" by simp
    with True show ?thesis by simp
  next
    case False
    with key have "map_of ?result1 k = Some (inner result k @ f k)" by simp
    with False show ?thesis by (simp add: update_conv')
  qed
  have a: "map_of ?result2 j = None \<longleftrightarrow> j \<notin> insert k S \<or> f j = []" for j
  proof (cases "j = k")
    case True
    with here show ?thesis by simp
  next
    case False
    with other [OF False] none [of j] show ?thesis by simp
  qed
  have b: "set c = set (f j)" if "map_of ?result2 j = Some c" for j c
  proof (cases "j = k")
    case True
    with that here have "f k \<noteq> []" and "c = sort_Sort lt (inner result k @ f k)"
      by (auto split: if_splits)
    with before True show ?thesis by (auto simp: set_sort_Sort)
  next
    case False
    with other [OF False] that have "map_of result j = Some c" by simp
    then show ?thesis by (rule some)
  qed
  from a b show ?thesis unfolding slices_hold_def Let_def by blast
qed

lemma granted_loop_hold:
  "slices_hold f S result \<Longrightarrow>
    slices_hold f (S \<union> set ks) (foldl (\<lambda>result k.
              let result1 = foldl (\<lambda>res x. AList.update k (inner res k @ [x]) res)
                              result (f k)
              in case map_of result1 k of
                   None \<Rightarrow> result1
                 | Some c \<Rightarrow> AList.update k (sort_Sort lt c) result1) result ks)"
proof (induction ks arbitrary: result S)
  case Nil
  then show ?case by simp
next
  case (Cons k ks)
  from granted_step_hold [of f S result k lt, OF Cons.prems]
  have "slices_hold f (insert k S)
          (let result1 = foldl (\<lambda>res x. AList.update k (inner res k @ [x]) res) result (f k)
           in case map_of result1 k of
                None \<Rightarrow> result1
              | Some c \<Rightarrow> AList.update k (sort_Sort lt c) result1)" .
  from Cons.IH [OF this] show ?case by simp
qed

lemma slices_hold_GrantedTo:
  "slices_hold (\<lambda>slot. map fst (inner (skillUsedBySlot r) slot))
     (snd ` set (inner (slots r) snapName)) (GrantedTo snapName r)"
proof -
  have "slices_hold (\<lambda>slot. map fst (inner (skillUsedBySlot r) slot)) {} []"
    by (simp add: slices_hold_def)
  from granted_loop_hold [OF this, of "map snd (inner (slots r) snapName)" bySkillSnapAndName_Less]
  show ?thesis by (simp add: GrantedTo_def)
qed

lemma slices_hold_GrantedBy:
  "slices_hold (\<lambda>skill. map fst (inner (slotsUsingSkill r) skill))
     (snd ` set (inner (skills r) snapName)) (GrantedBy snapName r)"
proof -
  have "slices_hold (\<lambda>skill. map fst (inner (slotsUsingSkill r) skill)) {} []"
    by (simp add: slices_hold_def)
  from granted_loop_hold [OF this, of "map snd (inner (skills r) snapName)" bySlotSnapAndName_Less]
  show ?thesis by (simp add: GrantedBy_def)
qed

lemma slices_hold_keys:
  assumes "slices_hold f S result"
  shows "fst ` set result = {k \<in> S. f k \<noteq> []}"
proof -
  have "fst ` set result = dom (map_of result)" by (simp add: dom_map_of_conv_image_fst)
  also have "\<dots> = {k \<in> S. f k \<noteq> []}"
    using assms unfolding slices_hold_def dom_def by auto
  finally show ?thesis .
qed

lemma slices_member:
  assumes "slices_ok le result" and "slices_hold f S result" and "(k, c) \<in> set result"
  shows "sorted_wrt le c \<and> set c = set (f k)"
proof -
  from assms(1) have d: "distinct (map fst result)" by (simp add: slices_ok_def)
  with assms(3) have m: "map_of result k = Some c" by simp
  with assms(1,2) show ?thesis unfolding slices_ok_def slices_hold_def by blast
qed

lemma set_AllSkills:
  "set (AllSkills skillType r) =
     {p \<in> (\<Union>(a, m) \<in> set (skills r). snd ` set m). skillType = [] \<or> Skill.Type (deref p) = skillType}"
  by (auto simp: AllSkills_def set_sort_Sort)

lemma set_AllSlots:
  "set (AllSlots skillType r) =
     {p \<in> (\<Union>(a, m) \<in> set (slots r). snd ` set m). skillType = [] \<or> Slot.Type (deref p) = skillType}"
  by (auto simp: AllSlots_def set_sort_Sort)

lemma set_Skills: "set (Skills snapName r) = snd ` set (inner (skills r) snapName)"
  by (simp add: Skills_def set_sort_Sort)

lemma set_Slots: "set (Slots snapName r) = snd ` set (inner (slots r) snapName)"
  by (simp add: Slots_def set_sort_Sort)

lemma ex_GrantedTo: "GrantedTo ''app2'' ex_granted2 = [(ex_uplink, [ex_zz, ex_iface])]"
  by code_simp

lemma ex_GrantedBy: "GrantedBy ''app1'' ex_granted2 = [(ex_iface, [ex_uplink])]"
  by code_simp

lemma ex_AllSkills: "AllSkills [] ex_granted2 = [ex_zz, ex_iface]"
  by code_simp

subsection \<open>Grant then Revoke\<close>

lemma inner_roundtrip:
  assumes "lookup2 m a b = None"
  shows "inner (delete2 (assign2 (make_if_nil m a) a b v) a b) a' = inner m a'"
proof (cases "a' = a")
  case True
  from assms have "b \<notin> fst ` set (inner m a)"
    by (simp add: lookup2_def map_of_eq_None_iff)
  then have "AList.delete b (AList.update b v (inner m a)) = inner m a"
    by (simp add: delete_update_same)
  with True show ?thesis by (simp add: inner_delete2 inner_assign2 inner_make_if_nil)
next
  case False
  then show ?thesis by (simp add: inner_delete2 inner_assign2 inner_make_if_nil)
qed

lemma GrantedTo_cong:
  "slots r' = slots r \<Longrightarrow> (\<And>x. inner (skillUsedBySlot r') x = inner (skillUsedBySlot r) x) \<Longrightarrow>
   GrantedTo s r' = GrantedTo s r"
  by (simp add: GrantedTo_def)

lemma GrantedBy_cong:
  "skills r' = skills r \<Longrightarrow> (\<And>x. inner (slotsUsingSkill r') x = inner (slotsUsingSkill r) x) \<Longrightarrow>
   GrantedBy s r' = GrantedBy s r"
  by (simp add: GrantedBy_def)

lemma not_held_absent:
  assumes "invariant r" and "\<not> holds2 (skillUsedBySlot r) slot skill"
  shows "lookup2 (skillUsedBySlot r) slot skill = None"
    and "lookup2 (slotsUsingSkill r) skill slot = None"
proof -
  from assms(1) have "edges_true r" and "edges_mirrored r" by (simp_all add: invariant_def)
  then have t: "lookup2 (skillUsedBySlot r) slot skill \<noteq> Some False"
    and m: "lookup2 (slotsUsingSkill r) skill slot = lookup2 (skillUsedBySlot r) slot skill"
    unfolding edges_true_def edges_mirrored_def by (blast, metis)
  from t assms(2) show "lookup2 (skillUsedBySlot r) slot skill = None"
    by (cases "lookup2 (skillUsedBySlot r) slot skill") (auto simp: holds2_def)
  with m show "lookup2 (slotsUsingSkill r) skill slot = None" by simp
qed

subsection \<open>Revoking until a skill is unused\<close>

lemma Revoke_frame:
  "types (snd (Revoke a b c d r)) = types r \<and> skills (snd (Revoke a b c d r)) = skills r \<and>
   slots (snd (Revoke a b c d r)) = slots r"
  by (simp add: Revoke_def Let_def split: option.splits)

lemma Revoke_one:
  assumes inv: "invariant r" and sk: "lookup2 (skills r) a n = Some skill"
  shows "lookup2 (slotsUsingSkill (snd (Revoke a n (Slot.Snap (deref c)) (Slot.Name (deref c)) r)))
           skill slot \<noteq> None \<Longrightarrow>
         lookup2 (slotsUsingSkill r) skill slot \<noteq> None \<and> slot \<noteq> c"
proof -
  let ?R = "Revoke a n (Slot.Snap (deref c)) (Slot.Name (deref c)) r"
  assume after: "lookup2 (slotsUsingSkill (snd ?R)) skill slot \<noteq> None"
  from inv have mirrored: "edges_mirrored r" and true: "edges_true r" and present: "edges_present r"
    by (simp_all add: invariant_def)
  have used: "holds2 (skillUsedBySlot r) c skill \<and> lookup2 (slots r) (Slot.Snap (deref c)) (Slot.Name (deref c)) = Some c"
    if "lookup2 (slotsUsingSkill r) skill c \<noteq> None"
  proof -
    from that mirrored have e: "lookup2 (skillUsedBySlot r) c skill \<noteq> None"
      unfolding edges_mirrored_def by metis
    have "holds2 (skillUsedBySlot r) c skill"
    proof (rule ccontr)
      assume "\<not> holds2 (skillUsedBySlot r) c skill"
      from not_held_absent(1) [OF inv this] e show False by simp
    qed
    moreover from e present have "slot_present r c" unfolding edges_present_def by blast
    ultimately show ?thesis by (simp add: slot_present_def)
  qed
  show ?thesis
  proof (cases "fst ?R")
    case (Some e)
    then have same: "snd ?R = r" by (simp add: Revoke_error_unchanged)
    have "lookup2 (slotsUsingSkill r) skill c = None"
    proof (rule ccontr)
      assume "lookup2 (slotsUsingSkill r) skill c \<noteq> None"
      from used [OF this] sk have "fst ?R = None" by (simp add: Revoke_def Let_def)
      with Some show False by simp
    qed
    with after same show ?thesis by auto
  next
    case None
    from Revoke_success [OF None] sk obtain slot' where
      sl: "lookup2 (slots r) (Slot.Snap (deref c)) (Slot.Name (deref c)) = Some slot'" and
      r': "snd ?R = r\<lparr>skillUsedBySlot := delete2 (skillUsedBySlot r) slot' skill,
                slotsUsingSkill := delete2 (slotsUsingSkill r) skill slot'\<rparr>"
      by auto
    from after have old: "lookup2 (slotsUsingSkill r) skill slot \<noteq> None" and ne: "slot \<noteq> slot'"
      by (auto simp: r' lookup2_simps split: if_splits)
    have "slot \<noteq> c"
    proof
      assume "slot = c"
      with old used sl have "slot' = c" by auto
      with ne \<open>slot = c\<close> show False by simp
    qed
    with old show ?thesis by simp
  qed
qed

lemma revoke_each_clears:
  "invariant r \<Longrightarrow> lookup2 (skills r) a n = Some skill \<Longrightarrow>
   invariant (revoke_each a n cs r) \<and> skills (revoke_each a n cs r) = skills r \<and>
   (\<forall>slot. lookup2 (slotsUsingSkill (revoke_each a n cs r)) skill slot \<noteq> None \<longrightarrow>
      lookup2 (slotsUsingSkill r) skill slot \<noteq> None \<and> slot \<notin> set cs)"
proof (induction cs arbitrary: r)
  case Nil
  then show ?case by (simp add: revoke_each_def)
next
  case (Cons c cs)
  let ?r1 = "snd (Revoke a n (Slot.Snap (deref c)) (Slot.Name (deref c)) r)"
  have e: "revoke_each a n (c # cs) r = revoke_each a n cs ?r1" by (simp add: revoke_each_def)
  have i1: "invariant ?r1" using Cons.prems(1) by (rule invariant_Revoke)
  have s1: "skills ?r1 = skills r" by (simp add: Revoke_frame)
  with Cons.prems(2) have l1: "lookup2 (skills ?r1) a n = Some skill" by simp
  note ih = Cons.IH [OF i1 l1]
  note one = Revoke_one [OF Cons.prems, of c]
  from ih one s1 show ?case unfolding e by auto
qed

lemma ex_Grant: "Grant ''app1'' ''iface'' ''app2'' ''uplink'' ex_added = (None, ex_granted)"
  by (simp add: Grant_def ex_added_def ex_granted_def ex_defs map_defs)

lemma ex_not_held: "\<not> holds2 (skillUsedBySlot ex_added) ex_uplink ex_iface"
  by (simp add: ex_added_def map_defs)

lemma ex_held: "holds2 (skillUsedBySlot ex_granted) ex_uplink ex_iface"
  by (simp add: ex_granted_def map_defs)

lemma ex_only_uplink: "holds2 (skillUsedBySlot ex_granted) c ex_iface \<longrightarrow> c \<in> set [ex_uplink]"
  by (simp add: ex_granted_def map_defs)

lemma ex_GrantedTo_before: "GrantedTo ''app2'' ex_added = []"
  by code_simp

lemma ex_GrantedTo_between: "GrantedTo ''app2'' ex_granted = [(ex_uplink, [ex_iface])]"
  by code_simp

section \<open>The claims\<close>

text \<open>
  C7: an operation that returns an error leaves the repository as it was. This holds for
  each of \<open>AddType\<close>, \<open>AddSkill\<close>, \<open>RemoveSkill\<close>, \<open>AddSlot\<close>, \<open>RemoveSlot\<close>, \<open>Grant\<close> and
  \<open>Revoke\<close>, for every argument and every state.
\<close>

theorem failure_leaves_state:
  "fst (perform ext op r) \<noteq> None \<Longrightarrow> snd (perform ext op r) = r"
  by (cases op) (simp_all add: AddType_error_unchanged AddSkill_error_unchanged
      RemoveSkill_error_unchanged AddSlot_error_unchanged RemoveSlot_error_unchanged
      Grant_error_unchanged Revoke_error_unchanged)

theorem failure_leaves_state_witness:
  "fst (perform ex_ext (OpRemoveSkill ''app1'' ''iface'') ex_granted) = Some (RemoveSkill_Used ''app1'' ''iface'') \<and>
   snd (perform ex_ext (OpRemoveSkill ''app1'' ''iface'') ex_granted) = ex_granted"
proof -
  have f: "fst (perform ex_ext (OpRemoveSkill ''app1'' ''iface'') ex_granted) = Some (RemoveSkill_Used ''app1'' ''iface'')"
    by (simp add: RemoveSkill_def ex_granted_def ex_added_def map_defs)
  then have "fst (perform ex_ext (OpRemoveSkill ''app1'' ''iface'') ex_granted) \<noteq> None" by simp
  from failure_leaves_state [OF this] f show ?thesis by simp
qed

text \<open>
  C2: in every state reached from \<open>NewRepository\<close> by operations, \<open>skillUsedBySlot[slot][skill]\<close>
  holds exactly when \<open>slotsUsingSkill[skill][slot]\<close> holds; the two indexes even store the
  same entry.
\<close>

theorem dual_index_consistent:
  assumes "reachable ext r"
  shows "(holds2 (skillUsedBySlot r) slot skill \<longleftrightarrow> holds2 (slotsUsingSkill r) skill slot) \<and>
         lookup2 (skillUsedBySlot r) slot skill = lookup2 (slotsUsingSkill r) skill slot"
  using reachable_invariant [OF assms] by (simp add: invariant_def edges_mirrored_def holds2_def)

theorem dual_index_consistent_witness:
  "holds2 (skillUsedBySlot ex_granted) ex_uplink ex_iface \<and>
   holds2 (slotsUsingSkill ex_granted) ex_iface ex_uplink"
proof -
  have "holds2 (skillUsedBySlot ex_granted) ex_uplink ex_iface"
    by (simp add: ex_granted_def map_defs)
  with dual_index_consistent [OF reachable_ex_granted, of ex_uplink ex_iface]
  show ?thesis by simp
qed

text \<open>
  C10: in every state reached from \<open>NewRepository\<close> by operations, an entry of either index
  connects a skill and a slot that are both in the tables, each under its own snap and name.
\<close>

theorem edges_reference_present_endpoints:
  assumes "reachable ext r"
    and "lookup2 (skillUsedBySlot r) slot skill \<noteq> None \<or> lookup2 (slotsUsingSkill r) skill slot \<noteq> None"
  shows "Repository_Skill (Skill.Snap (deref skill)) (Skill.Name (deref skill)) r = Some skill \<and>
         Repository_Slot (Slot.Snap (deref slot)) (Slot.Name (deref slot)) r = Some slot"
proof -
  from reachable_invariant [OF assms(1)]
  have m: "edges_mirrored r" and p: "edges_present r" by (simp_all add: invariant_def)
  from m assms(2) have "lookup2 (skillUsedBySlot r) slot skill \<noteq> None"
    by (simp add: edges_mirrored_def)
  with p show ?thesis
    by (simp add: edges_present_def skill_present_def slot_present_def Repository_Skill_def Repository_Slot_def)
qed

theorem edges_reference_present_endpoints_witness:
  "lookup2 (skillUsedBySlot ex_granted) ex_uplink ex_iface = Some True \<and>
   Repository_Skill ''app1'' ''iface'' ex_granted = Some ex_iface \<and>
   Repository_Slot ''app2'' ''uplink'' ex_granted = Some ex_uplink"
proof -
  have e: "lookup2 (skillUsedBySlot ex_granted) ex_uplink ex_iface = Some True"
    by (simp add: ex_granted_def map_defs)
  then have "lookup2 (skillUsedBySlot ex_granted) ex_uplink ex_iface \<noteq> None \<or>
     lookup2 (slotsUsingSkill ex_granted) ex_iface ex_uplink \<noteq> None" by simp
  from edges_reference_present_endpoints [OF reachable_ex_granted this] e
  show ?thesis by (simp add: ex_iface_def ex_uplink_def)
qed

text \<open>
  C1: in every state, \<open>Grant\<close> fails with "no such skill" or "no such slot" when that end is
  missing, with "type doesn't match" when both exist and their types differ, with "already
  used" when the types agree and the slot already uses the skill; otherwise it succeeds, the
  entry is in both indexes afterwards, and nothing else has changed. The state returned with
  an error is the state given.
\<close>

theorem Grant_outcomes:
  "(Repository_Skill a b r = None \<longrightarrow>
      Grant a b c d r = (Some (Grant_NoSuchSkill a b), r)) \<and>
   (Repository_Skill a b r \<noteq> None \<and> Repository_Slot c d r = None \<longrightarrow>
      Grant a b c d r = (Some (Grant_NoSuchSlot c d), r)) \<and>
   (Repository_Skill a b r = Some skill \<and> Repository_Slot c d r = Some slot \<and>
    Slot.Type (deref slot) \<noteq> Skill.Type (deref skill) \<longrightarrow>
      Grant a b c d r =
        (Some (Grant_TypeMismatch (Skill.Type (deref skill)) (Slot.Type (deref slot))), r)) \<and>
   (Repository_Skill a b r = Some skill \<and> Repository_Slot c d r = Some slot \<and>
    Slot.Type (deref slot) = Skill.Type (deref skill) \<and> holds2 (skillUsedBySlot r) slot skill \<longrightarrow>
      Grant a b c d r =
        (Some (Grant_AlreadyUsed (Skill.Snap (deref skill)) (Skill.Name (deref skill))
                 (Slot.Snap (deref slot)) (Slot.Name (deref slot))), r)) \<and>
   (Repository_Skill a b r = Some skill \<and> Repository_Slot c d r = Some slot \<and>
    Slot.Type (deref slot) = Skill.Type (deref skill) \<and> \<not> holds2 (skillUsedBySlot r) slot skill \<longrightarrow>
      fst (Grant a b c d r) = None \<and>
      holds2 (skillUsedBySlot (snd (Grant a b c d r))) slot skill \<and>
      holds2 (slotsUsingSkill (snd (Grant a b c d r))) skill slot \<and>
      (\<forall>slot' skill'. (slot', skill') \<noteq> (slot, skill) \<longrightarrow>
         lookup2 (skillUsedBySlot (snd (Grant a b c d r))) slot' skill' =
           lookup2 (skillUsedBySlot r) slot' skill' \<and>
         lookup2 (slotsUsingSkill (snd (Grant a b c d r))) skill' slot' =
           lookup2 (slotsUsingSkill r) skill' slot') \<and>
      types (snd (Grant a b c d r)) = types r \<and>
      skills (snd (Grant a b c d r)) = skills r \<and>
      slots (snd (Grant a b c d r)) = slots r)"
proof (intro conjI impI)
  assume "Repository_Skill a b r = None"
  then show "Grant a b c d r = (Some (Grant_NoSuchSkill a b), r)"
    by (simp add: Grant_def Repository_Skill_def)
next
  assume "Repository_Skill a b r \<noteq> None \<and> Repository_Slot c d r = None"
  then show "Grant a b c d r = (Some (Grant_NoSuchSlot c d), r)"
    by (auto simp: Grant_def Repository_Skill_def Repository_Slot_def)
next
  assume "Repository_Skill a b r = Some skill \<and> Repository_Slot c d r = Some slot \<and>
    Slot.Type (deref slot) \<noteq> Skill.Type (deref skill)"
  then show "Grant a b c d r =
        (Some (Grant_TypeMismatch (Skill.Type (deref skill)) (Slot.Type (deref slot))), r)"
    by (simp add: Grant_def Repository_Skill_def Repository_Slot_def)
next
  assume "Repository_Skill a b r = Some skill \<and> Repository_Slot c d r = Some slot \<and>
    Slot.Type (deref slot) = Skill.Type (deref skill) \<and> holds2 (skillUsedBySlot r) slot skill"
  then show "Grant a b c d r =
        (Some (Grant_AlreadyUsed (Skill.Snap (deref skill)) (Skill.Name (deref skill))
                 (Slot.Snap (deref slot)) (Slot.Name (deref slot))), r)"
    by (simp add: Grant_def Repository_Skill_def Repository_Slot_def)
next
  assume h: "Repository_Skill a b r = Some skill \<and> Repository_Slot c d r = Some slot \<and>
    Slot.Type (deref slot) = Skill.Type (deref skill) \<and> \<not> holds2 (skillUsedBySlot r) slot skill"
  then have g: "Grant a b c d r = (None,
      r\<lparr>skillUsedBySlot := assign2 (make_if_nil (skillUsedBySlot r) slot) slot skill True,
        slotsUsingSkill := assign2 (make_if_nil (slotsUsingSkill r) skill) skill slot True\<rparr>)"
    by (simp add: Grant_def Let_def Repository_Skill_def Repository_Slot_def)
  show "fst (Grant a b c d r) = None" by (simp add: g)
  show "holds2 (skillUsedBySlot (snd (Grant a b c d r))) slot skill"
    by (simp add: g holds2_def lookup2_simps)
  show "holds2 (slotsUsingSkill (snd (Grant a b c d r))) skill slot"
    by (simp add: g holds2_def lookup2_simps)
  show "\<forall>slot' skill'. (slot', skill') \<noteq> (slot, skill) \<longrightarrow>
         lookup2 (skillUsedBySlot (snd (Grant a b c d r))) slot' skill' =
           lookup2 (skillUsedBySlot r) slot' skill' \<and>
         lookup2 (slotsUsingSkill (snd (Grant a b c d r))) skill' slot' =
           lookup2 (slotsUsingSkill r) skill' slot'"
    by (simp add: g lookup2_simps)
  show "types (snd (Grant a b c d r)) = types r" by (simp add: g)
  show "skills (snd (Grant a b c d r)) = skills r" by (simp add: g)
  show "slots (snd (Grant a b c d r)) = slots r" by (simp add: g)
qed

theorem Grant_outcomes_witness:
  "Grant ''app1'' ''iface'' ''app2'' ''uplink'' NewRepository =
     (Some (Grant_NoSuchSkill ''app1'' ''iface''), NewRepository) \<and>
   Grant ''app1'' ''iface'' ''app2'' ''nothere'' ex_added =
     (Some (Grant_NoSuchSlot ''app2'' ''nothere''), ex_added) \<and>
   Grant ''app1'' ''iface'' ''app2'' ''serial'' ex_mixed =
     (Some (Grant_TypeMismatch ''net'' ''tty''), ex_mixed) \<and>
   Grant ''app1'' ''iface'' ''app2'' ''uplink'' ex_granted =
     (Some (Grant_AlreadyUsed ''app1'' ''iface'' ''app2'' ''uplink''), ex_granted) \<and>
   fst (Grant ''app1'' ''iface'' ''app2'' ''uplink'' ex_added) = None \<and>
   holds2 (skillUsedBySlot (snd (Grant ''app1'' ''iface'' ''app2'' ''uplink'' ex_added))) ex_uplink ex_iface \<and>
   holds2 (slotsUsingSkill (snd (Grant ''app1'' ''iface'' ''app2'' ''uplink'' ex_added))) ex_iface ex_uplink"
proof -
  have n: "Repository_Skill ''app1'' ''iface'' NewRepository = None"
    by (simp add: Repository_Skill_def NewRepository_def map_defs)
  have t: "Slot.Type (deref ex_uplink) = Skill.Type (deref ex_iface)"
    and t': "Slot.Type (deref ex_serial) \<noteq> Skill.Type (deref ex_iface)"
    by (simp_all add: ex_defs)
  have f: "\<not> holds2 (skillUsedBySlot ex_added) ex_uplink ex_iface"
    by (simp add: ex_added_def map_defs)
  have h: "holds2 (skillUsedBySlot ex_granted) ex_uplink ex_iface"
    by (simp add: ex_granted_def map_defs)
  from Grant_outcomes [of "''app1''" "''iface''" NewRepository "''app2''" "''uplink''"] n
  have 1: "Grant ''app1'' ''iface'' ''app2'' ''uplink'' NewRepository =
     (Some (Grant_NoSuchSkill ''app1'' ''iface''), NewRepository)" by blast
  from Grant_outcomes [of "''app1''" "''iface''" ex_added "''app2''" "''nothere''"]
    ex_lookups(1,8)
  have 2: "Grant ''app1'' ''iface'' ''app2'' ''nothere'' ex_added =
     (Some (Grant_NoSuchSlot ''app2'' ''nothere''), ex_added)" by simp
  from Grant_outcomes [of "''app1''" "''iface''" ex_mixed "''app2''" "''serial''" ex_iface ex_serial]
    ex_lookups(6,7) t'
  have "Grant ''app1'' ''iface'' ''app2'' ''serial'' ex_mixed =
     (Some (Grant_TypeMismatch (Skill.Type (deref ex_iface)) (Slot.Type (deref ex_serial))), ex_mixed)"
    by blast
  then have 3: "Grant ''app1'' ''iface'' ''app2'' ''serial'' ex_mixed =
     (Some (Grant_TypeMismatch ''net'' ''tty''), ex_mixed)"
    by (simp add: ex_defs)
  from Grant_outcomes [of "''app1''" "''iface''" ex_granted "''app2''" "''uplink''" ex_iface ex_uplink]
    ex_lookups(3,4) t h
  have "Grant ''app1'' ''iface'' ''app2'' ''uplink'' ex_granted =
     (Some (Grant_AlreadyUsed (Skill.Snap (deref ex_iface)) (Skill.Name (deref ex_iface))
                 (Slot.Snap (deref ex_uplink)) (Slot.Name (deref ex_uplink))), ex_granted)" by blast
  then have 4: "Grant ''app1'' ''iface'' ''app2'' ''uplink'' ex_granted =
     (Some (Grant_AlreadyUsed ''app1'' ''iface'' ''app2'' ''uplink''), ex_granted)"
    by (simp add: ex_defs)
  from Grant_outcomes [of "''app1''" "''iface''" ex_added "''app2''" "''uplink''" ex_iface ex_uplink]
    ex_lookups(1,2) t f
  have 5: "fst (Grant ''app1'' ''iface'' ''app2'' ''uplink'' ex_added) = None \<and>
   holds2 (skillUsedBySlot (snd (Grant ''app1'' ''iface'' ''app2'' ''uplink'' ex_added))) ex_uplink ex_iface \<and>
   holds2 (slotsUsingSkill (snd (Grant ''app1'' ''iface'' ''app2'' ''uplink'' ex_added))) ex_iface ex_uplink"
    by blast
  from 1 2 3 4 5 show ?thesis by blast
qed

text \<open>
  C3: \<open>AddSkill\<close> checks, in this order, the snap name, the skill name, that the type is
  registered, the type's \<open>Sanitize\<close>, and that the name is free in the snap; the first check
  that fails gives the error and the state is returned as it was. When all pass, the skill is
  stored: \<open>Skill\<close> finds it under its snap and name, every other lookup is as before, and
  the types, the slots and both indexes are untouched.
\<close>

theorem AddSkill_outcomes:
  "(snap_ValidateName ext (Skill.Snap (deref skill)) = Some e \<longrightarrow>
      AddSkill ext skill r = (Some e, r)) \<and>
   (snap_ValidateName ext (Skill.Snap (deref skill)) = None \<and>
    ValidateName ext (Skill.Name (deref skill)) = Some e \<longrightarrow>
      AddSkill ext skill r = (Some e, r)) \<and>
   (snap_ValidateName ext (Skill.Snap (deref skill)) = None \<and>
    ValidateName ext (Skill.Name (deref skill)) = None \<and>
    Repository_Type (Skill.Type (deref skill)) r = None \<longrightarrow>
      AddSkill ext skill r = (Some (AddSkill_TypeNotKnown (Skill.Type (deref skill))), r)) \<and>
   (snap_ValidateName ext (Skill.Snap (deref skill)) = None \<and>
    ValidateName ext (Skill.Name (deref skill)) = None \<and>
    Repository_Type (Skill.Type (deref skill)) r = Some t \<and> Sanitize t skill = Some e \<longrightarrow>
      AddSkill ext skill r = (Some e, r)) \<and>
   (snap_ValidateName ext (Skill.Snap (deref skill)) = None \<and>
    ValidateName ext (Skill.Name (deref skill)) = None \<and>
    Repository_Type (Skill.Type (deref skill)) r = Some t \<and> Sanitize t skill = None \<and>
    Repository_Skill (Skill.Snap (deref skill)) (Skill.Name (deref skill)) r \<noteq> None \<longrightarrow>
      AddSkill ext skill r = (Some (AddSkill_NameInUse (Skill.Name (deref skill))), r)) \<and>
   (snap_ValidateName ext (Skill.Snap (deref skill)) = None \<and>
    ValidateName ext (Skill.Name (deref skill)) = None \<and>
    Repository_Type (Skill.Type (deref skill)) r = Some t \<and> Sanitize t skill = None \<and>
    Repository_Skill (Skill.Snap (deref skill)) (Skill.Name (deref skill)) r = None \<longrightarrow>
      fst (AddSkill ext skill r) = None \<and>
      Repository_Skill (Skill.Snap (deref skill)) (Skill.Name (deref skill))
        (snd (AddSkill ext skill r)) = Some skill \<and>
      (\<forall>a n. (a, n) \<noteq> (Skill.Snap (deref skill), Skill.Name (deref skill)) \<longrightarrow>
         Repository_Skill a n (snd (AddSkill ext skill r)) = Repository_Skill a n r) \<and>
      types (snd (AddSkill ext skill r)) = types r \<and>
      slots (snd (AddSkill ext skill r)) = slots r \<and>
      skillUsedBySlot (snd (AddSkill ext skill r)) = skillUsedBySlot r \<and>
      slotsUsingSkill (snd (AddSkill ext skill r)) = slotsUsingSkill r)"
proof (intro conjI impI)
  assume h: "snap_ValidateName ext (Skill.Snap (deref skill)) = None \<and>
    ValidateName ext (Skill.Name (deref skill)) = None \<and>
    Repository_Type (Skill.Type (deref skill)) r = Some t \<and> Sanitize t skill = None \<and>
    Repository_Skill (Skill.Snap (deref skill)) (Skill.Name (deref skill)) r = None"
  then have g: "AddSkill ext skill r = (None,
      r\<lparr>skills := assign2 (make_if_nil (skills r) (Skill.Snap (deref skill)))
                      (Skill.Snap (deref skill)) (Skill.Name (deref skill)) skill\<rparr>)"
    by (simp add: AddSkill_def Let_def Repository_Skill_def Repository_Type_def)
  show "fst (AddSkill ext skill r) = None" by (simp add: g)
  show "Repository_Skill (Skill.Snap (deref skill)) (Skill.Name (deref skill))
        (snd (AddSkill ext skill r)) = Some skill"
    by (simp add: g Repository_Skill_def lookup2_simps)
  show "\<forall>a n. (a, n) \<noteq> (Skill.Snap (deref skill), Skill.Name (deref skill)) \<longrightarrow>
         Repository_Skill a n (snd (AddSkill ext skill r)) = Repository_Skill a n r"
    by (simp add: g Repository_Skill_def lookup2_simps)
  show "types (snd (AddSkill ext skill r)) = types r" by (simp add: g)
  show "slots (snd (AddSkill ext skill r)) = slots r" by (simp add: g)
  show "skillUsedBySlot (snd (AddSkill ext skill r)) = skillUsedBySlot r" by (simp add: g)
  show "slotsUsingSkill (snd (AddSkill ext skill r)) = slotsUsingSkill r" by (simp add: g)
qed (auto simp: AddSkill_def Repository_Skill_def Repository_Type_def)

theorem AddSkill_outcomes_witness:
  "AddSkill ex_ext (Ptr 5 \<lparr>Skill.Snap = [], Name = ''iface'', Type = ''net''\<rparr>) ex_typed =
     (Some (ExternalError ''invalid snap name''), ex_typed) \<and>
   AddSkill ex_ext (Ptr 5 \<lparr>Skill.Snap = ''app1'', Name = [], Type = ''net''\<rparr>) ex_typed =
     (Some (ExternalError ''invalid name''), ex_typed) \<and>
   AddSkill ex_ext ex_iface NewRepository = (Some (AddSkill_TypeNotKnown ''net''), NewRepository) \<and>
   AddSkill ex_ext (Ptr 5 \<lparr>Skill.Snap = ''app1'', Name = ''iface'', Type = ''strict''\<rparr>) ex_typed =
     (Some (ExternalError ''rejected''), ex_typed) \<and>
   AddSkill ex_ext (Ptr 5 \<lparr>Skill.Snap = ''app1'', Name = ''iface'', Type = ''net''\<rparr>) ex_added =
     (Some (AddSkill_NameInUse ''iface''), ex_added) \<and>
   fst (AddSkill ex_ext ex_iface ex_typed) = None \<and>
   Repository_Skill ''app1'' ''iface'' (snd (AddSkill ex_ext ex_iface ex_typed)) = Some ex_iface"
proof -
  let ?bad_snap = "Ptr 5 \<lparr>Skill.Snap = [], Name = ''iface'', Type = ''net''\<rparr>"
  let ?bad_name = "Ptr 5 \<lparr>Skill.Snap = ''app1'', Name = [], Type = ''net''\<rparr>"
  let ?strict = "Ptr 5 \<lparr>Skill.Snap = ''app1'', Name = ''iface'', Type = ''strict''\<rparr>"
  let ?again = "Ptr 5 \<lparr>Skill.Snap = ''app1'', Name = ''iface'', Type = ''net''\<rparr>"
  have 1: "AddSkill ex_ext ?bad_snap ex_typed = (Some (ExternalError ''invalid snap name''), ex_typed)"
    using AddSkill_outcomes [of ex_ext ?bad_snap "ExternalError ''invalid snap name''" ex_typed]
    by (simp add: ex_ext_simps)
  have 2: "AddSkill ex_ext ?bad_name ex_typed = (Some (ExternalError ''invalid name''), ex_typed)"
    using AddSkill_outcomes [of ex_ext ?bad_name "ExternalError ''invalid name''" ex_typed]
    by (simp add: ex_ext_simps)
  have 3: "AddSkill ex_ext ex_iface NewRepository = (Some (AddSkill_TypeNotKnown ''net''), NewRepository)"
    using AddSkill_outcomes [of ex_ext ex_iface _ NewRepository]
    by (simp add: ex_ext_simps ex_types ex_iface_def)
  have 4: "AddSkill ex_ext ?strict ex_typed = (Some (ExternalError ''rejected''), ex_typed)"
    using AddSkill_outcomes [of ex_ext ?strict "ExternalError ''rejected''" ex_typed ex_strict]
    by (simp add: ex_ext_simps ex_types) (simp add: ex_strict_def)
  have 5: "AddSkill ex_ext ?again ex_added = (Some (AddSkill_NameInUse ''iface''), ex_added)"
    using AddSkill_outcomes [of ex_ext ?again _ ex_added ex_net] ex_lookups(1)
    by (simp add: ex_ext_simps ex_types) (simp add: ex_net_def)
  have "Repository_Skill ''app1'' ''iface'' ex_typed = None"
    by (simp add: Repository_Skill_def ex_typed_def NewRepository_def map_defs)
  then have 6: "fst (AddSkill ex_ext ex_iface ex_typed) = None \<and>
     Repository_Skill ''app1'' ''iface'' (snd (AddSkill ex_ext ex_iface ex_typed)) = Some ex_iface"
    using AddSkill_outcomes [of ex_ext ex_iface _ ex_typed ex_net]
    by (simp add: ex_ext_simps ex_types ex_iface_def) (simp add: ex_net_def)
  from 1 2 3 4 5 6 show ?thesis by blast
qed

text \<open>
  C4, as stated, fails: \<open>AddSlot\<close> never calls the type's \<open>Sanitize\<close>, which takes a
  \<open>*Skill\<close>. The type \<open>strict\<close> rejects every skill, also the one with the address, snap,
  name and type of the slot; the slot has a valid snap and name, and is added.
\<close>

theorem AddSlot_skips_Sanitize_counterexample:
  "snap_ValidateName ex_ext (Slot.Snap (deref ex_strict_slot)) = None \<and>
   ValidateName ex_ext (Slot.Name (deref ex_strict_slot)) = None \<and>
   Repository_Type (Slot.Type (deref ex_strict_slot)) ex_typed = Some ex_strict \<and>
   Sanitize ex_strict (Ptr 7 \<lparr>Skill.Snap = ''app2'', Name = ''uplink'', Type = ''strict''\<rparr>) =
     Some (ExternalError ''rejected'') \<and>
   fst (AddSlot ex_ext ex_strict_slot ex_typed) = None \<and>
   Repository_Slot ''app2'' ''uplink'' (snd (AddSlot ex_ext ex_strict_slot ex_typed)) = Some ex_strict_slot"
  by (simp add: AddSlot_def Let_def ex_typed_def NewRepository_def Repository_Type_def
      Repository_Slot_def ex_strict_slot_def ex_ext_def map_defs) (simp add: ex_strict_def)

text \<open>
  C4, amended: for a slot whose snap name is valid, \<open>AddSlot\<close> checks, in this order, the
  slot name, that the type is registered, and that the name is free in the snap; the first
  check that fails gives the error and the state is returned as it was; when all pass the
  slot is stored and nothing else changes, whatever the type's \<open>Sanitize\<close> would say.
  \<open>RemoveSlot\<close> fails when the slot does not exist, fails when the slot uses a skill, and
  otherwise removes the slot from its table and changes nothing else.
\<close>

theorem AddSlot_RemoveSlot_outcomes:
  assumes "snap_ValidateName ext (Slot.Snap (deref slot)) = None"
  shows
  "(ValidateName ext (Slot.Name (deref slot)) = Some e \<longrightarrow>
      AddSlot ext slot r = (Some e, r)) \<and>
   (ValidateName ext (Slot.Name (deref slot)) = None \<and>
    Repository_Type (Slot.Type (deref slot)) r = None \<longrightarrow>
      AddSlot ext slot r = (Some (AddSlot_TypeNotKnown (Slot.Type (deref slot))), r)) \<and>
   (ValidateName ext (Slot.Name (deref slot)) = None \<and>
    Repository_Type (Slot.Type (deref slot)) r \<noteq> None \<and>
    Repository_Slot (Slot.Snap (deref slot)) (Slot.Name (deref slot)) r \<noteq> None \<longrightarrow>
      AddSlot ext slot r = (Some (AddSlot_NameInUse (Slot.Name (deref slot))), r)) \<and>
   (ValidateName ext (Slot.Name (deref slot)) = None \<and>
    Repository_Type (Slot.Type (deref slot)) r \<noteq> None \<and>
    Repository_Slot (Slot.Snap (deref slot)) (Slot.Name (deref slot)) r = None \<longrightarrow>
      fst (AddSlot ext slot r) = None \<and>
      Repository_Slot (Slot.Snap (deref slot)) (Slot.Name (deref slot))
        (snd (AddSlot ext slot r)) = Some slot \<and>
      (\<forall>a n. (a, n) \<noteq> (Slot.Snap (deref slot), Slot.Name (deref slot)) \<longrightarrow>
         Repository_Slot a n (snd (AddSlot ext slot r)) = Repository_Slot a n r) \<and>
      types (snd (AddSlot ext slot r)) = types r \<and>
      skills (snd (AddSlot ext slot r)) = skills r \<and>
      skillUsedBySlot (snd (AddSlot ext slot r)) = skillUsedBySlot r \<and>
      slotsUsingSkill (snd (AddSlot ext slot r)) = slotsUsingSkill r) \<and>
   (Repository_Slot a n r = None \<longrightarrow>
      RemoveSlot a n r = (Some (RemoveSlot_NotExist a n), r)) \<and>
   (Repository_Slot a n r = Some c \<and> holds2 (skillUsedBySlot r) c skill \<longrightarrow>
      RemoveSlot a n r = (Some (RemoveSlot_Uses a n), r)) \<and>
   (Repository_Slot a n r = Some c \<and> (\<forall>sk. lookup2 (skillUsedBySlot r) c sk = None) \<longrightarrow>
      fst (RemoveSlot a n r) = None \<and>
      Repository_Slot a n (snd (RemoveSlot a n r)) = None \<and>
      (\<forall>a' n'. (a', n') \<noteq> (a, n) \<longrightarrow>
         Repository_Slot a' n' (snd (RemoveSlot a n r)) = Repository_Slot a' n' r) \<and>
      types (snd (RemoveSlot a n r)) = types r \<and>
      skills (snd (RemoveSlot a n r)) = skills r \<and>
      skillUsedBySlot (snd (RemoveSlot a n r)) = skillUsedBySlot r \<and>
      slotsUsingSkill (snd (RemoveSlot a n r)) = slotsUsingSkill r)"
proof (intro conjI impI)
  assume h: "ValidateName ext (Slot.Name (deref slot)) = None \<and>
    Repository_Type (Slot.Type (deref slot)) r \<noteq> None \<and>
    Repository_Slot (Slot.Snap (deref slot)) (Slot.Name (deref slot)) r = None"
  then have g: "AddSlot ext slot r = (None,
      r\<lparr>slots := assign2 (make_if_nil (slots r) (Slot.Snap (deref slot)))
                      (Slot.Snap (deref slot)) (Slot.Name (deref slot)) slot\<rparr>)"
    by (auto simp add: AddSlot_def Let_def Repository_Slot_def Repository_Type_def)
  show "fst (AddSlot ext slot r) = None" by (simp add: g)
  show "Repository_Slot (Slot.Snap (deref slot)) (Slot.Name (deref slot))
        (snd (AddSlot ext slot r)) = Some slot"
    by (simp add: g Repository_Slot_def lookup2_simps)
  show "\<forall>a n. (a, n) \<noteq> (Slot.Snap (deref slot), Slot.Name (deref slot)) \<longrightarrow>
         Repository_Slot a n (snd (AddSlot ext slot r)) = Repository_Slot a n r"
    by (simp add: g Repository_Slot_def lookup2_simps)
  show "types (snd (AddSlot ext slot r)) = types r" by (simp add: g)
  show "skills (snd (AddSlot ext slot r)) = skills r" by (simp add: g)
  show "skillUsedBySlot (snd (AddSlot ext slot r)) = skillUsedBySlot r" by (simp add: g)
  show "slotsUsingSkill (snd (AddSlot ext slot r)) = slotsUsingSkill r" by (simp add: g)
next
  assume "Repository_Slot a n r = Some c \<and> holds2 (skillUsedBySlot r) c skill"
  then have "lookup2 (slots r) a n = Some c" and "inner (skillUsedBySlot r) c \<noteq> []"
    by (auto simp: Repository_Slot_def holds2_def lookup2_def)
  then show "RemoveSlot a n r = (Some (RemoveSlot_Uses a n), r)"
    by (simp add: RemoveSlot_def)
next
  assume h: "Repository_Slot a n r = Some c \<and> (\<forall>sk. lookup2 (skillUsedBySlot r) c sk = None)"
  then have "inner (skillUsedBySlot r) c = []" by (simp add: inner_empty_iff)
  with h have g: "RemoveSlot a n r = (None, r\<lparr>slots := delete2 (slots r) a n\<rparr>)"
    by (simp add: RemoveSlot_def Repository_Slot_def)
  show "fst (RemoveSlot a n r) = None" by (simp add: g)
  show "Repository_Slot a n (snd (RemoveSlot a n r)) = None"
    by (simp add: g Repository_Slot_def lookup2_simps)
  show "\<forall>a' n'. (a', n') \<noteq> (a, n) \<longrightarrow>
         Repository_Slot a' n' (snd (RemoveSlot a n r)) = Repository_Slot a' n' r"
    by (simp add: g Repository_Slot_def lookup2_simps)
  show "types (snd (RemoveSlot a n r)) = types r" by (simp add: g)
  show "skills (snd (RemoveSlot a n r)) = skills r" by (simp add: g)
  show "skillUsedBySlot (snd (RemoveSlot a n r)) = skillUsedBySlot r" by (simp add: g)
  show "slotsUsingSkill (snd (RemoveSlot a n r)) = slotsUsingSkill r" by (simp add: g)
qed (auto simp: AddSlot_def RemoveSlot_def Repository_Slot_def Repository_Type_def)

theorem AddSlot_RemoveSlot_outcomes_witness:
  "AddSlot ex_ext (Ptr 8 \<lparr>Slot.Snap = ''app2'', Name = [], Type = ''net''\<rparr>) ex_typed =
     (Some (ExternalError ''invalid name''), ex_typed) \<and>
   AddSlot ex_ext ex_uplink NewRepository = (Some (AddSlot_TypeNotKnown ''net''), NewRepository) \<and>
   AddSlot ex_ext (Ptr 8 \<lparr>Slot.Snap = ''app2'', Name = ''uplink'', Type = ''net''\<rparr>) ex_added =
     (Some (AddSlot_NameInUse ''uplink''), ex_added) \<and>
   fst (AddSlot ex_ext ex_strict_slot ex_typed) = None \<and>
   Repository_Slot ''app2'' ''uplink'' (snd (AddSlot ex_ext ex_strict_slot ex_typed)) = Some ex_strict_slot \<and>
   RemoveSlot ''app2'' ''uplink'' NewRepository = (Some (RemoveSlot_NotExist ''app2'' ''uplink''), NewRepository) \<and>
   RemoveSlot ''app2'' ''uplink'' ex_granted = (Some (RemoveSlot_Uses ''app2'' ''uplink''), ex_granted) \<and>
   fst (RemoveSlot ''app2'' ''uplink'' ex_added) = None \<and>
   Repository_Slot ''app2'' ''uplink'' (snd (RemoveSlot ''app2'' ''uplink'' ex_added)) = None"
proof -
  let ?bad_name = "Ptr 8 \<lparr>Slot.Snap = ''app2'', Name = [], Type = ''net''\<rparr>"
  let ?again = "Ptr 8 \<lparr>Slot.Snap = ''app2'', Name = ''uplink'', Type = ''net''\<rparr>"
  have own: "snap_ValidateName ex_ext (Slot.Snap (deref ?bad_name)) = None"
    "snap_ValidateName ex_ext (Slot.Snap (deref ex_uplink)) = None"
    "snap_ValidateName ex_ext (Slot.Snap (deref ?again)) = None"
    "snap_ValidateName ex_ext (Slot.Snap (deref ex_strict_slot)) = None"
    by (simp_all add: ex_ext_simps ex_uplink_def ex_strict_slot_def)
  have none: "Repository_Slot ''app2'' ''uplink'' NewRepository = None"
    "Repository_Slot ''app2'' ''uplink'' ex_typed = None"
    by (simp_all add: Repository_Slot_def ex_typed_def NewRepository_def map_defs)
  have used: "holds2 (skillUsedBySlot ex_granted) ex_uplink ex_iface"
    by (simp add: ex_granted_def map_defs)
  have unused: "\<forall>sk. lookup2 (skillUsedBySlot ex_added) ex_uplink sk = None"
    by (simp add: ex_added_def map_defs)
  have 1: "AddSlot ex_ext ?bad_name ex_typed = (Some (ExternalError ''invalid name''), ex_typed)"
    using AddSlot_RemoveSlot_outcomes [OF own(1), of "ExternalError ''invalid name''" ex_typed]
    by (simp add: ex_ext_simps)
  have 2: "AddSlot ex_ext ex_uplink NewRepository = (Some (AddSlot_TypeNotKnown ''net''), NewRepository)"
    using AddSlot_RemoveSlot_outcomes [OF own(2), of _ NewRepository]
    by (simp add: ex_ext_simps ex_types ex_uplink_def)
  have 3: "AddSlot ex_ext ?again ex_added = (Some (AddSlot_NameInUse ''uplink''), ex_added)"
    using AddSlot_RemoveSlot_outcomes [OF own(3), of _ ex_added] ex_lookups(2)
    by (simp add: ex_ext_simps ex_types)
  have 4: "fst (AddSlot ex_ext ex_strict_slot ex_typed) = None \<and>
     Repository_Slot ''app2'' ''uplink'' (snd (AddSlot ex_ext ex_strict_slot ex_typed)) = Some ex_strict_slot"
    using AddSlot_RemoveSlot_outcomes [OF own(4), of _ ex_typed] none(2)
    by (simp add: ex_ext_simps ex_types ex_strict_slot_def)
  have 5: "RemoveSlot ''app2'' ''uplink'' NewRepository = (Some (RemoveSlot_NotExist ''app2'' ''uplink''), NewRepository)"
    using AddSlot_RemoveSlot_outcomes [OF own(2), of _ NewRepository "''app2''" "''uplink''"] none(1)
    by simp
  have 6: "RemoveSlot ''app2'' ''uplink'' ex_granted = (Some (RemoveSlot_Uses ''app2'' ''uplink''), ex_granted)"
    using AddSlot_RemoveSlot_outcomes [OF own(2), of _ ex_granted "''app2''" "''uplink''" ex_uplink ex_iface]
      ex_lookups(4) used
    by simp
  have 7: "fst (RemoveSlot ''app2'' ''uplink'' ex_added) = None \<and>
     Repository_Slot ''app2'' ''uplink'' (snd (RemoveSlot ''app2'' ''uplink'' ex_added)) = None"
    using AddSlot_RemoveSlot_outcomes [OF own(2), of _ ex_added "''app2''" "''uplink''" ex_uplink]
      ex_lookups(2) unused
    by simp
  from 1 2 3 4 5 6 7 show ?thesis by blast
qed

text \<open>
  C5: in a reachable state where the slot does not use the skill, \<open>Grant\<close> followed by
  \<open>Revoke\<close> on the same pair gives back the state's grants: \<open>GrantedTo\<close> and \<open>GrantedBy\<close>
  return what they returned before the \<open>Grant\<close>, for every snap; neither index holds the
  pair; every entry of both indexes reads as before, and so does the inner map of every
  slot and of every skill; types, skills and slots are untouched. When the types of the
  pair agree, both calls succeed. (An inner map that \<open>Grant\<close> had to make stays behind,
  empty; an empty inner map reads like a missing one.)
\<close>

theorem Grant_Revoke_roundtrip:
  assumes "reachable ext r"
    and "Repository_Skill a b r = Some skill"
    and "Repository_Slot c d r = Some slot"
    and "\<not> holds2 (skillUsedBySlot r) slot skill"
  shows "GrantedTo s (snd (Revoke a b c d (snd (Grant a b c d r)))) = GrantedTo s r \<and>
         GrantedBy s (snd (Revoke a b c d (snd (Grant a b c d r)))) = GrantedBy s r \<and>
         \<not> holds2 (skillUsedBySlot (snd (Revoke a b c d (snd (Grant a b c d r))))) slot skill \<and>
         \<not> holds2 (slotsUsingSkill (snd (Revoke a b c d (snd (Grant a b c d r))))) skill slot \<and>
         lookup2 (skillUsedBySlot (snd (Revoke a b c d (snd (Grant a b c d r))))) slot' skill' =
           lookup2 (skillUsedBySlot r) slot' skill' \<and>
         lookup2 (slotsUsingSkill (snd (Revoke a b c d (snd (Grant a b c d r))))) skill' slot' =
           lookup2 (slotsUsingSkill r) skill' slot' \<and>
         inner (skillUsedBySlot (snd (Revoke a b c d (snd (Grant a b c d r))))) slot' =
           inner (skillUsedBySlot r) slot' \<and>
         inner (slotsUsingSkill (snd (Revoke a b c d (snd (Grant a b c d r))))) skill' =
           inner (slotsUsingSkill r) skill' \<and>
         types (snd (Revoke a b c d (snd (Grant a b c d r)))) = types r \<and>
         skills (snd (Revoke a b c d (snd (Grant a b c d r)))) = skills r \<and>
         slots (snd (Revoke a b c d (snd (Grant a b c d r)))) = slots r \<and>
         (Slot.Type (deref slot) = Skill.Type (deref skill) \<longrightarrow>
            fst (Grant a b c d r) = None \<and>
            holds2 (skillUsedBySlot (snd (Grant a b c d r))) slot skill \<and>
            fst (Revoke a b c d (snd (Grant a b c d r))) = None)"
proof -
  let ?r' = "snd (Revoke a b c d (snd (Grant a b c d r)))"
  from assms(1) have inv: "invariant r" by (rule reachable_invariant)
  note absent = not_held_absent [OF inv assms(4)]
  from assms(2,3) have lk: "lookup2 (skills r) a b = Some skill" "lookup2 (slots r) c d = Some slot"
    by (simp_all add: Repository_Skill_def Repository_Slot_def)
  have nh: "\<not> holds2 (slotsUsingSkill r) skill slot" using absent(2) by (simp add: holds2_def)
  show ?thesis
  proof (cases "Slot.Type (deref slot) = Skill.Type (deref skill)")
    case False
    with lk have "Grant a b c d r =
        (Some (Grant_TypeMismatch (Skill.Type (deref skill)) (Slot.Type (deref slot))), r)"
      by (simp add: Grant_def)
    moreover from lk assms(4) have "snd (Revoke a b c d r) = r" by (simp add: Revoke_def)
    ultimately have "?r' = r" by simp
    with False assms(4) nh show ?thesis by simp
  next
    case True
    let ?g = "r\<lparr>skillUsedBySlot := assign2 (make_if_nil (skillUsedBySlot r) slot) slot skill True,
        slotsUsingSkill := assign2 (make_if_nil (slotsUsingSkill r) skill) skill slot True\<rparr>"
    from True lk assms(4) have g: "Grant a b c d r = (None, ?g)"
      by (simp add: Grant_def Let_def)
    have hg: "holds2 (skillUsedBySlot ?g) slot skill" by (simp add: holds2_def lookup2_simps)
    with lk have v: "Revoke a b c d ?g = (None,
        ?g\<lparr>skillUsedBySlot := delete2 (skillUsedBySlot ?g) slot skill,
           slotsUsingSkill := delete2 (slotsUsingSkill ?g) skill slot\<rparr>)"
      by (simp add: Revoke_def Let_def)
    have r': "?r' = r\<lparr>skillUsedBySlot :=
                 delete2 (assign2 (make_if_nil (skillUsedBySlot r) slot) slot skill True) slot skill,
               slotsUsingSkill :=
                 delete2 (assign2 (make_if_nil (slotsUsingSkill r) skill) skill slot True) skill slot\<rparr>"
      by (simp add: g v)
    have i1: "\<And>x. inner (skillUsedBySlot ?r') x = inner (skillUsedBySlot r) x"
      by (simp add: r' inner_roundtrip [OF absent(1)])
    have i2: "\<And>x. inner (slotsUsingSkill ?r') x = inner (slotsUsingSkill r) x"
      by (simp add: r' inner_roundtrip [OF absent(2)])
    have f: "types ?r' = types r" "skills ?r' = skills r" "slots ?r' = slots r"
      by (simp_all add: r')
    have 1: "GrantedTo s ?r' = GrantedTo s r" using f(3) i1 by (rule GrantedTo_cong)
    have 2: "GrantedBy s ?r' = GrantedBy s r" using f(2) i2 by (rule GrantedBy_cong)
    have 3: "\<And>x y. lookup2 (skillUsedBySlot ?r') x y = lookup2 (skillUsedBySlot r) x y"
      by (simp add: lookup2_def i1)
    have 4: "\<And>x y. lookup2 (slotsUsingSkill ?r') x y = lookup2 (slotsUsingSkill r) x y"
      by (simp add: lookup2_def i2)
    have 5: "\<not> holds2 (skillUsedBySlot ?r') slot skill" "\<not> holds2 (slotsUsingSkill ?r') skill slot"
      using assms(4) nh by (simp_all add: holds2_def 3 4)
    have 6: "fst (Grant a b c d r) = None" "holds2 (skillUsedBySlot (snd (Grant a b c d r))) slot skill"
      "fst (Revoke a b c d (snd (Grant a b c d r))) = None"
      using hg by (simp_all add: g v)
    from 1 2 3 4 5 6 f i1 i2 show ?thesis by blast
  qed
qed

theorem Grant_Revoke_roundtrip_witness:
  "fst (Grant ''app1'' ''iface'' ''app2'' ''uplink'' ex_added) = None \<and>
   GrantedTo ''app2'' (snd (Grant ''app1'' ''iface'' ''app2'' ''uplink'' ex_added)) =
     [(ex_uplink, [ex_iface])] \<and>
   fst (Revoke ''app1'' ''iface'' ''app2'' ''uplink''
          (snd (Grant ''app1'' ''iface'' ''app2'' ''uplink'' ex_added))) = None \<and>
   GrantedTo ''app2'' (snd (Revoke ''app1'' ''iface'' ''app2'' ''uplink''
          (snd (Grant ''app1'' ''iface'' ''app2'' ''uplink'' ex_added)))) = [] \<and>
   GrantedBy ''app1'' (snd (Revoke ''app1'' ''iface'' ''app2'' ''uplink''
          (snd (Grant ''app1'' ''iface'' ''app2'' ''uplink'' ex_added)))) = GrantedBy ''app1'' ex_added"
proof -
  have t: "Slot.Type (deref ex_uplink) = Skill.Type (deref ex_iface)" by (simp add: ex_defs)
  note rt = Grant_Revoke_roundtrip [OF reachable_ex_added ex_lookups(1) ex_lookups(2) ex_not_held]
  from rt [where s = "''app2''"] have 1: "GrantedTo ''app2'' (snd (Revoke ''app1'' ''iface'' ''app2'' ''uplink''
          (snd (Grant ''app1'' ''iface'' ''app2'' ''uplink'' ex_added)))) = GrantedTo ''app2'' ex_added"
    by simp
  from rt [where s = "''app1''"] have 2: "GrantedBy ''app1'' (snd (Revoke ''app1'' ''iface'' ''app2'' ''uplink''
          (snd (Grant ''app1'' ''iface'' ''app2'' ''uplink'' ex_added)))) = GrantedBy ''app1'' ex_added"
    by simp
  from rt [where s = "''app1''"] t have 3: "fst (Grant ''app1'' ''iface'' ''app2'' ''uplink'' ex_added) = None"
    "fst (Revoke ''app1'' ''iface'' ''app2'' ''uplink''
          (snd (Grant ''app1'' ''iface'' ''app2'' ''uplink'' ex_added))) = None"
    by simp_all
  have 4: "GrantedTo ''app2'' (snd (Grant ''app1'' ''iface'' ''app2'' ''uplink'' ex_added)) =
     [(ex_uplink, [ex_iface])]"
    by (simp add: ex_Grant ex_GrantedTo_between)
  from 1 have 5: "GrantedTo ''app2'' (snd (Revoke ''app1'' ''iface'' ''app2'' ''uplink''
          (snd (Grant ''app1'' ''iface'' ''app2'' ''uplink'' ex_added)))) = []"
    by (simp only: ex_GrantedTo_before)
  show ?thesis by (intro conjI) (rule 3 4 5 2)+
qed

text \<open>
  C6: in a reachable state, \<open>RemoveSkill\<close> fails with "does not exist" when there is no such
  skill, fails with "is used" when some slot uses the skill, and otherwise removes the skill
  from its table and changes nothing else. After a \<open>Revoke\<close> for every slot that uses the
  skill, the same \<open>RemoveSkill\<close> call succeeds.
\<close>

theorem RemoveSkill_outcomes:
  assumes "reachable ext r"
  shows
  "(Repository_Skill a n r = None \<longrightarrow>
      RemoveSkill a n r = (Some (RemoveSkill_NotExist a n), r)) \<and>
   (Repository_Skill a n r = Some skill \<and> holds2 (skillUsedBySlot r) slot skill \<longrightarrow>
      RemoveSkill a n r = (Some (RemoveSkill_Used a n), r)) \<and>
   (Repository_Skill a n r = Some skill \<and> (\<forall>c. \<not> holds2 (skillUsedBySlot r) c skill) \<longrightarrow>
      fst (RemoveSkill a n r) = None \<and>
      Repository_Skill a n (snd (RemoveSkill a n r)) = None \<and>
      (\<forall>a' n'. (a', n') \<noteq> (a, n) \<longrightarrow>
         Repository_Skill a' n' (snd (RemoveSkill a n r)) = Repository_Skill a' n' r) \<and>
      types (snd (RemoveSkill a n r)) = types r \<and>
      slots (snd (RemoveSkill a n r)) = slots r \<and>
      skillUsedBySlot (snd (RemoveSkill a n r)) = skillUsedBySlot r \<and>
      slotsUsingSkill (snd (RemoveSkill a n r)) = slotsUsingSkill r) \<and>
   (Repository_Skill a n r = Some skill \<and> (\<forall>c. holds2 (skillUsedBySlot r) c skill \<longrightarrow> c \<in> set cs) \<longrightarrow>
      fst (RemoveSkill a n (revoke_each a n cs r)) = None \<and>
      Repository_Skill a n (snd (RemoveSkill a n (revoke_each a n cs r))) = None)"
proof -
  from assms have inv: "invariant r" by (rule reachable_invariant)
  have absent: "lookup2 (slotsUsingSkill r) skill c = None" if "\<not> holds2 (skillUsedBySlot r) c skill" for c
    using not_held_absent(2) [OF inv that] .
  have 1: "Repository_Skill a n r = None \<longrightarrow>
      RemoveSkill a n r = (Some (RemoveSkill_NotExist a n), r)"
    by (simp add: RemoveSkill_def Repository_Skill_def)
  have 2: "Repository_Skill a n r = Some skill \<and> holds2 (skillUsedBySlot r) slot skill \<longrightarrow>
      RemoveSkill a n r = (Some (RemoveSkill_Used a n), r)"
  proof
    assume h: "Repository_Skill a n r = Some skill \<and> holds2 (skillUsedBySlot r) slot skill"
    with inv have "lookup2 (slotsUsingSkill r) skill slot = Some True"
      unfolding invariant_def edges_mirrored_def holds2_def by metis
    then have "inner (slotsUsingSkill r) skill \<noteq> []" by (auto simp: lookup2_def)
    with h show "RemoveSkill a n r = (Some (RemoveSkill_Used a n), r)"
      by (simp add: RemoveSkill_def Repository_Skill_def)
  qed
  have 3: "Repository_Skill a n r = Some skill \<and> (\<forall>c. \<not> holds2 (skillUsedBySlot r) c skill) \<longrightarrow>
      fst (RemoveSkill a n r) = None \<and>
      Repository_Skill a n (snd (RemoveSkill a n r)) = None \<and>
      (\<forall>a' n'. (a', n') \<noteq> (a, n) \<longrightarrow>
         Repository_Skill a' n' (snd (RemoveSkill a n r)) = Repository_Skill a' n' r) \<and>
      types (snd (RemoveSkill a n r)) = types r \<and>
      slots (snd (RemoveSkill a n r)) = slots r \<and>
      skillUsedBySlot (snd (RemoveSkill a n r)) = skillUsedBySlot r \<and>
      slotsUsingSkill (snd (RemoveSkill a n r)) = slotsUsingSkill r"
  proof
    assume h: "Repository_Skill a n r = Some skill \<and> (\<forall>c. \<not> holds2 (skillUsedBySlot r) c skill)"
    with absent have "inner (slotsUsingSkill r) skill = []" by (simp add: inner_empty_iff)
    with h have g: "RemoveSkill a n r = (None, r\<lparr>skills := delete2 (skills r) a n\<rparr>)"
      by (simp add: RemoveSkill_def Repository_Skill_def)
    show "fst (RemoveSkill a n r) = None \<and>
      Repository_Skill a n (snd (RemoveSkill a n r)) = None \<and>
      (\<forall>a' n'. (a', n') \<noteq> (a, n) \<longrightarrow>
         Repository_Skill a' n' (snd (RemoveSkill a n r)) = Repository_Skill a' n' r) \<and>
      types (snd (RemoveSkill a n r)) = types r \<and>
      slots (snd (RemoveSkill a n r)) = slots r \<and>
      skillUsedBySlot (snd (RemoveSkill a n r)) = skillUsedBySlot r \<and>
      slotsUsingSkill (snd (RemoveSkill a n r)) = slotsUsingSkill r"
      by (simp add: g Repository_Skill_def lookup2_simps)
  qed
  have 4: "Repository_Skill a n r = Some skill \<and> (\<forall>c. holds2 (skillUsedBySlot r) c skill \<longrightarrow> c \<in> set cs) \<longrightarrow>
      fst (RemoveSkill a n (revoke_each a n cs r)) = None \<and>
      Repository_Skill a n (snd (RemoveSkill a n (revoke_each a n cs r))) = None"
  proof
    assume h: "Repository_Skill a n r = Some skill \<and> (\<forall>c. holds2 (skillUsedBySlot r) c skill \<longrightarrow> c \<in> set cs)"
    let ?r' = "revoke_each a n cs r"
    from h have sk: "lookup2 (skills r) a n = Some skill" by (simp add: Repository_Skill_def)
    from revoke_each_clears [OF inv sk, of cs]
    have s: "skills ?r' = skills r"
      and cl: "\<And>c. lookup2 (slotsUsingSkill ?r') skill c \<noteq> None \<Longrightarrow>
                 lookup2 (slotsUsingSkill r) skill c \<noteq> None \<and> c \<notin> set cs"
      by blast+
    have "lookup2 (slotsUsingSkill ?r') skill c = None" for c
    proof (rule ccontr)
      assume "lookup2 (slotsUsingSkill ?r') skill c \<noteq> None"
      from cl [OF this] have "lookup2 (slotsUsingSkill r) skill c \<noteq> None" "c \<notin> set cs" by simp_all
      with absent [of c] h show False by blast
    qed
    then have "inner (slotsUsingSkill ?r') skill = []" by (simp add: inner_empty_iff)
    with sk s have g: "RemoveSkill a n ?r' = (None, ?r'\<lparr>skills := delete2 (skills ?r') a n\<rparr>)"
      by (simp add: RemoveSkill_def)
    show "fst (RemoveSkill a n ?r') = None \<and> Repository_Skill a n (snd (RemoveSkill a n ?r')) = None"
      by (simp add: g Repository_Skill_def lookup2_simps)
  qed
  show ?thesis by (intro conjI) (rule 1 2 3 4)+
qed

theorem RemoveSkill_outcomes_witness:
  "RemoveSkill ''app9'' ''iface'' ex_granted = (Some (RemoveSkill_NotExist ''app9'' ''iface''), ex_granted) \<and>
   RemoveSkill ''app1'' ''iface'' ex_granted = (Some (RemoveSkill_Used ''app1'' ''iface''), ex_granted) \<and>
   fst (RemoveSkill ''app0'' ''zz'' ex_granted) = None \<and>
   Repository_Skill ''app0'' ''zz'' (snd (RemoveSkill ''app0'' ''zz'' ex_granted)) = None \<and>
   fst (RemoveSkill ''app1'' ''iface'' (revoke_each ''app1'' ''iface'' [ex_uplink] ex_granted)) = None \<and>
   Repository_Skill ''app1'' ''iface''
     (snd (RemoveSkill ''app1'' ''iface'' (revoke_each ''app1'' ''iface'' [ex_uplink] ex_granted))) = None"
proof -
  have n: "Repository_Skill ''app9'' ''iface'' ex_granted = None"
    by (simp add: Repository_Skill_def ex_granted_def ex_added_def map_defs)
  have z: "\<forall>c. \<not> holds2 (skillUsedBySlot ex_granted) c ex_zz"
    by (simp add: ex_granted_def map_defs ex_defs)
  have u: "\<forall>c. holds2 (skillUsedBySlot ex_granted) c ex_iface \<longrightarrow> c \<in> set [ex_uplink]"
    using ex_only_uplink by blast
  note o = RemoveSkill_outcomes [OF reachable_ex_granted]
  from o [of "''app9''" "''iface''"] n
  have 1: "RemoveSkill ''app9'' ''iface'' ex_granted = (Some (RemoveSkill_NotExist ''app9'' ''iface''), ex_granted)"
    by simp
  from o [of "''app1''" "''iface''" ex_iface ex_uplink] ex_lookups(3) ex_held
  have 2: "RemoveSkill ''app1'' ''iface'' ex_granted = (Some (RemoveSkill_Used ''app1'' ''iface''), ex_granted)"
    by simp
  from o [of "''app0''" "''zz''" ex_zz] ex_lookups(5) z
  have 3: "fst (RemoveSkill ''app0'' ''zz'' ex_granted) = None"
    "Repository_Skill ''app0'' ''zz'' (snd (RemoveSkill ''app0'' ''zz'' ex_granted)) = None"
    by simp_all
  from o [where a = "''app1''" and n = "''iface''" and skill = ex_iface and cs = "[ex_uplink]"] ex_lookups(3) u
  have 4: "fst (RemoveSkill ''app1'' ''iface'' (revoke_each ''app1'' ''iface'' [ex_uplink] ex_granted)) = None"
    "Repository_Skill ''app1'' ''iface''
     (snd (RemoveSkill ''app1'' ''iface'' (revoke_each ''app1'' ''iface'' [ex_uplink] ex_granted))) = None"
    by simp_all
  show ?thesis by (intro conjI) (rule 1 2 3 4)+
qed

text \<open>
  C8: in every state and for every argument, \<open>AllSkills\<close>, \<open>Skills\<close>, \<open>AllSlots\<close> and
  \<open>Slots\<close> return lists in ascending order of (snap, name), and so is every slice of the
  maps that \<open>GrantedTo\<close> and \<open>GrantedBy\<close> return. Each listing returns its entries:
  \<open>AllSkills\<close> and \<open>AllSlots\<close> the stored objects of the given type, all of them with the
  empty filter; \<open>Skills\<close> and \<open>Slots\<close> the objects of the snap, as many as are stored;
  \<open>GrantedTo\<close> a key for each slot of the snap that uses a skill, and under it the skills
  that slot uses; \<open>GrantedBy\<close> a key for each skill of the snap that a slot uses, and under
  it the slots using that skill.
\<close>

theorem listings_sorted:
  "sorted_wrt skill_le (AllSkills skillType r) \<and>
   sorted_wrt skill_le (Skills snapName r) \<and>
   sorted_wrt slot_le (AllSlots skillType r) \<and>
   sorted_wrt slot_le (Slots snapName r) \<and>
   (\<forall>(slot, c) \<in> set (GrantedTo snapName r). sorted_wrt skill_le c) \<and>
   (\<forall>(skill, c) \<in> set (GrantedBy snapName r). sorted_wrt slot_le c) \<and>
   set (AllSkills [] r) = (\<Union>(a, m) \<in> set (skills r). snd ` set m) \<and>
   set (AllSlots [] r) = (\<Union>(a, m) \<in> set (slots r). snd ` set m) \<and>
   set (AllSkills skillType r) =
     {p \<in> (\<Union>(a, m) \<in> set (skills r). snd ` set m).
        skillType = [] \<or> Skill.Type (deref p) = skillType} \<and>
   set (AllSlots skillType r) =
     {p \<in> (\<Union>(a, m) \<in> set (slots r). snd ` set m).
        skillType = [] \<or> Slot.Type (deref p) = skillType} \<and>
   set (Skills snapName r) = snd ` set (inner (skills r) snapName) \<and>
   length (Skills snapName r) = length (inner (skills r) snapName) \<and>
   set (Slots snapName r) = snd ` set (inner (slots r) snapName) \<and>
   length (Slots snapName r) = length (inner (slots r) snapName) \<and>
   fst ` set (GrantedTo snapName r) =
     {slot \<in> snd ` set (inner (slots r) snapName). inner (skillUsedBySlot r) slot \<noteq> []} \<and>
   (\<forall>(slot, c) \<in> set (GrantedTo snapName r).
      set c = fst ` set (inner (skillUsedBySlot r) slot)) \<and>
   fst ` set (GrantedBy snapName r) =
     {skill \<in> snd ` set (inner (skills r) snapName). inner (slotsUsingSkill r) skill \<noteq> []} \<and>
   (\<forall>(skill, c) \<in> set (GrantedBy snapName r).
      set c = fst ` set (inner (slotsUsingSkill r) skill))"
proof (intro conjI)
  show "\<forall>(slot, c) \<in> set (GrantedTo snapName r). sorted_wrt skill_le c"
    using slices_ok_member [OF slices_ok_GrantedTo] by blast
  show "\<forall>(skill, c) \<in> set (GrantedBy snapName r). sorted_wrt slot_le c"
    using slices_ok_member [OF slices_ok_GrantedBy] by blast
  show "set (AllSkills [] r) = (\<Union>(a, m) \<in> set (skills r). snd ` set m)"
    by (auto simp: AllSkills_def set_sort_Sort)
  show "set (AllSlots [] r) = (\<Union>(a, m) \<in> set (slots r). snd ` set m)"
    by (auto simp: AllSlots_def set_sort_Sort)
  show "set (AllSkills skillType r) =
     {p \<in> (\<Union>(a, m) \<in> set (skills r). snd ` set m).
        skillType = [] \<or> Skill.Type (deref p) = skillType}"
    by (rule set_AllSkills)
  show "set (AllSlots skillType r) =
     {p \<in> (\<Union>(a, m) \<in> set (slots r). snd ` set m).
        skillType = [] \<or> Slot.Type (deref p) = skillType}"
    by (rule set_AllSlots)
  show "set (Skills snapName r) = snd ` set (inner (skills r) snapName)"
    by (rule set_Skills)
  show "length (Skills snapName r) = length (inner (skills r) snapName)"
    by (simp add: Skills_def length_sort_Sort)
  show "set (Slots snapName r) = snd ` set (inner (slots r) snapName)"
    by (rule set_Slots)
  show "length (Slots snapName r) = length (inner (slots r) snapName)"
    by (simp add: Slots_def length_sort_Sort)
  show "fst ` set (GrantedTo snapName r) =
     {slot \<in> snd ` set (inner (slots r) snapName). inner (skillUsedBySlot r) slot \<noteq> []}"
    using slices_hold_keys [OF slices_hold_GrantedTo [of r snapName]] by simp
  show "\<forall>(slot, c) \<in> set (GrantedTo snapName r).
      set c = fst ` set (inner (skillUsedBySlot r) slot)"
  proof (clarify)
    fix slot c assume "(slot, c) \<in> set (GrantedTo snapName r)"
    from slices_member [OF slices_ok_GrantedTo slices_hold_GrantedTo this]
    show "set c = fst ` set (inner (skillUsedBySlot r) slot)" by simp
  qed
  show "fst ` set (GrantedBy snapName r) =
     {skill \<in> snd ` set (inner (skills r) snapName). inner (slotsUsingSkill r) skill \<noteq> []}"
    using slices_hold_keys [OF slices_hold_GrantedBy [of r snapName]] by simp
  show "\<forall>(skill, c) \<in> set (GrantedBy snapName r).
      set c = fst ` set (inner (slotsUsingSkill r) skill)"
  proof (clarify)
    fix skill c assume "(skill, c) \<in> set (GrantedBy snapName r)"
    from slices_member [OF slices_ok_GrantedBy slices_hold_GrantedBy this]
    show "set c = fst ` set (inner (slotsUsingSkill r) skill)" by simp
  qed
qed (simp_all add: AllSkills_def Skills_def AllSlots_def Slots_def sorted_skills sorted_slots)

theorem listings_sorted_witness:
  "(ex_uplink, [ex_zz, ex_iface]) \<in> set (GrantedTo ''app2'' ex_granted2) \<and>
   sorted_wrt skill_le [ex_zz, ex_iface] \<and>
   set [ex_zz, ex_iface] = fst ` set (inner (skillUsedBySlot ex_granted2) ex_uplink) \<and>
   (ex_iface, [ex_uplink]) \<in> set (GrantedBy ''app1'' ex_granted2) \<and>
   sorted_wrt slot_le [ex_uplink] \<and>
   AllSkills [] ex_granted2 = [ex_zz, ex_iface] \<and>
   set (Skills ''app1'' ex_granted2) = {ex_iface} \<and>
   fst ` set (GrantedTo ''app1'' ex_granted2) = {} \<and>
   skill_le ex_zz ex_iface \<and> \<not> skill_le ex_iface ex_zz"
proof -
  note ls2 = listings_sorted [of "[]" ex_granted2 "''app2''"]
  note ls1 = listings_sorted [of "[]" ex_granted2 "''app1''"]
  have m1: "(ex_uplink, [ex_zz, ex_iface]) \<in> set (GrantedTo ''app2'' ex_granted2)"
    by (simp add: ex_GrantedTo)
  have m2: "(ex_iface, [ex_uplink]) \<in> set (GrantedBy ''app1'' ex_granted2)"
    by (simp add: ex_GrantedBy)
  have "\<forall>(slot, c) \<in> set (GrantedTo ''app2'' ex_granted2). sorted_wrt skill_le c"
    using ls2 by (elim conjE)
  with m1 have 1: "sorted_wrt skill_le [ex_zz, ex_iface]" by fast
  have "\<forall>(slot, c) \<in> set (GrantedTo ''app2'' ex_granted2).
      set c = fst ` set (inner (skillUsedBySlot ex_granted2) slot)"
    using ls2 by (elim conjE)
  with m1 have 4: "set [ex_zz, ex_iface] = fst ` set (inner (skillUsedBySlot ex_granted2) ex_uplink)"
    by fast
  have "\<forall>(skill, c) \<in> set (GrantedBy ''app1'' ex_granted2). sorted_wrt slot_le c"
    using ls1 by (elim conjE)
  with m2 have 2: "sorted_wrt slot_le [ex_uplink]" by fast
  have 3: "skill_le ex_zz ex_iface" "\<not> skill_le ex_iface ex_zz"
    by (simp_all add: skill_le_def ex_defs)
  have "set (Skills ''app1'' ex_granted2) = snd ` set (inner (skills ex_granted2) ''app1'')"
    using ls1 by (elim conjE)
  then have 5: "set (Skills ''app1'' ex_granted2) = {ex_iface}"
    by (simp add: ex_granted2_def ex_added_def inner_def)
  have "fst ` set (GrantedTo ''app1'' ex_granted2) =
     {slot \<in> snd ` set (inner (slots ex_granted2) ''app1''). inner (skillUsedBySlot ex_granted2) slot \<noteq> []}"
    using ls1 by (elim conjE)
  then have 6: "fst ` set (GrantedTo ''app1'' ex_granted2) = {}"
    by (simp add: ex_granted2_def ex_added_def inner_def)
  show ?thesis
    by (intro conjI) (rule m1 1 4 m2 2 ex_AllSkills 5 6 3)+
qed

end
